theory Spec2Isabelle
  imports Complex_Main
begin

section \<open>Numbers and arrays\<close>

text \<open>
  The arrays of \<^verbatim>\<open>climada/engine/supplychain.py\<close> hold IEEE floating-point numbers.
  A number is modelled as an exact real or one of the three special values; the
  operations follow the IEEE rules for the special values (a division by zero gives an
  infinity or not-a-number and raises nothing, a comparison with not-a-number is false)
  and are exact on finite values. Rounding, overflow of finite results, the sign of
  zero and the casts between single and double precision (\<^verbatim>\<open>astype(np.float32)\<close>) are
  not modelled.
\<close>

datatype fnum = Fin real | PInf | MInf | NaN

fun is_nan :: "fnum \<Rightarrow> bool" where
  "is_nan NaN = True"
| "is_nan _ = False"

fun fneg :: "fnum \<Rightarrow> fnum" where
  "fneg (Fin x) = Fin (- x)"
| "fneg PInf = MInf"
| "fneg MInf = PInf"
| "fneg NaN = NaN"

fun fadd :: "fnum \<Rightarrow> fnum \<Rightarrow> fnum" where
  "fadd NaN _ = NaN"
| "fadd _ NaN = NaN"
| "fadd (Fin x) (Fin y) = Fin (x + y)"
| "fadd PInf MInf = NaN"
| "fadd MInf PInf = NaN"
| "fadd PInf _ = PInf"
| "fadd _ PInf = PInf"
| "fadd MInf _ = MInf"
| "fadd _ MInf = MInf"

definition fsub :: "fnum \<Rightarrow> fnum \<Rightarrow> fnum" where
  "fsub a b = fadd a (fneg b)"

text \<open>The sign of a number that is not not-a-number: \<open>-1\<close>, \<open>0\<close> or \<open>1\<close>.\<close>

fun fsgn :: "fnum \<Rightarrow> int" where
  "fsgn (Fin x) = (if x < 0 then - 1 else if x = 0 then 0 else 1)"
| "fsgn PInf = 1"
| "fsgn MInf = - 1"
| "fsgn NaN = 0"

definition inf_of_sign :: "int \<Rightarrow> fnum" where
  "inf_of_sign k = (if k = 0 then NaN else if k < 0 then MInf else PInf)"

fun fmul :: "fnum \<Rightarrow> fnum \<Rightarrow> fnum" where
  "fmul NaN _ = NaN"
| "fmul _ NaN = NaN"
| "fmul (Fin x) (Fin y) = Fin (x * y)"
| "fmul a b = inf_of_sign (fsgn a * fsgn b)"

fun fdiv :: "fnum \<Rightarrow> fnum \<Rightarrow> fnum" where
  "fdiv NaN _ = NaN"
| "fdiv _ NaN = NaN"
| "fdiv (Fin x) (Fin y) = (if y = 0 then inf_of_sign (fsgn (Fin x)) else Fin (x / y))"
| "fdiv (Fin x) _ = Fin 0"
| "fdiv a (Fin y) = inf_of_sign (fsgn a * (if y < 0 then - 1 else 1))"
| "fdiv _ _ = NaN"

text \<open>\<^verbatim>\<open>a > b\<close>: false as soon as one side is not-a-number.\<close>

fun fgt :: "fnum \<Rightarrow> fnum \<Rightarrow> bool" where
  "fgt NaN _ = False"
| "fgt _ NaN = False"
| "fgt (Fin x) (Fin y) = (y < x)"
| "fgt PInf PInf = False"
| "fgt PInf _ = True"
| "fgt MInf _ = False"
| "fgt (Fin x) PInf = False"
| "fgt (Fin x) MInf = True"

definition fle :: "fnum \<Rightarrow> fnum \<Rightarrow> bool" where
  "fle a b = (\<not> is_nan a \<and> \<not> is_nan b \<and> \<not> fgt a b)"

text \<open>\<^verbatim>\<open>np.maximum\<close>: the greater of the two, not-a-number if one of them is.\<close>

definition fmaximum :: "fnum \<Rightarrow> fnum \<Rightarrow> fnum" where
  "fmaximum a b = (if is_nan a \<or> is_nan b then NaN else if fgt b a then b else a)"

text \<open>\<^verbatim>\<open>sum\<close> and \<^verbatim>\<open>np.nansum\<close> of a vector, and \<^verbatim>\<open>mean\<close>.\<close>

definition fsum :: "fnum list \<Rightarrow> fnum" where
  "fsum xs = foldl fadd (Fin 0) xs"

definition nan_to_zero :: "fnum \<Rightarrow> fnum" where
  "nan_to_zero x = (if is_nan x then Fin 0 else x)"

definition nansum :: "fnum list \<Rightarrow> fnum" where
  "nansum xs = fsum (map nan_to_zero xs)"

definition fmean :: "fnum list \<Rightarrow> fnum" where
  "fmean xs = fdiv (fsum xs) (Fin (real (length xs)))"

text \<open>
  A two-dimensional array is the list of its rows. \<open>column m j\<close> is \<^verbatim>\<open>m[:, j]\<close>;
  the reductions along an axis of an array with \<open>w\<close> columns follow
  (\<open>w\<close> is explicit because an array with no row still has its columns).
\<close>

type_synonym matrix = "fnum list list"

definition column :: "matrix \<Rightarrow> nat \<Rightarrow> fnum list" where
  "column m j = map (\<lambda>row. row ! j) m"

definition mean_axis0 :: "nat \<Rightarrow> matrix \<Rightarrow> fnum list" where
  "mean_axis0 w m = map (\<lambda>j. fmean (column m j)) [0..<w]"

definition nansum_axis0 :: "nat \<Rightarrow> matrix \<Rightarrow> fnum list" where
  "nansum_axis0 w m = map (\<lambda>j. nansum (column m j)) [0..<w]"

definition nansum_axis1 :: "matrix \<Rightarrow> fnum list" where
  "nansum_axis1 m = map nansum m"

definition sum_axis1 :: "matrix \<Rightarrow> fnum list" where
  "sum_axis1 m = map fsum m"

definition zeros :: "nat \<Rightarrow> nat \<Rightarrow> matrix" where
  "zeros h w = replicate h (replicate w (Fin 0))"

section \<open>The supply chain object\<close>

text \<open>
  The exceptions of Python and \<^verbatim>\<open>numpy\<close> that the methods can end with. The functions
  below produce all of them but \<open>ZeroDivisionError\<close>, the exception of the division of
  Python's own numbers, which no array operation raises.
\<close>

datatype error = KeyError | IndexError | AttributeError | ValueError | LinAlgError
  | ZeroDivisionError

text \<open>
  The dictionary \<^verbatim>\<open>io_data\<close>; the fields \<open>inverse_mat\<close> and \<open>approach\<close> are its keys
  \<^verbatim>\<open>'inverse'\<close> and \<^verbatim>\<open>'io_approach'\<close>.
\<close>

record io_data =
  coefficients :: matrix
  inverse_mat :: matrix
  risk_structure :: "fnum list list list"
  approach :: string

record supplychain =
  mriot_data :: matrix
  countries_iso3 :: "string list"
  sectors :: "string list"
  total_prod :: "fnum list"
  mriot_type :: string
  cntry_pos :: "string \<rightharpoonup> nat list"
  cntry_dir_imp :: "string list"
  years :: "int list"
  direct_impact :: matrix
  direct_aai_agg :: "fnum list"
  indirect_impact :: matrix
  indirect_aai_agg :: "fnum list"
  total_impact :: matrix
  total_aai_agg :: "fnum list"
  io_data :: "io_data option"

text \<open>\<^verbatim>\<open>__init__\<close>; the attributes it does not set are empty here.\<close>

definition init :: supplychain where
  "init = \<lparr>mriot_data = [], countries_iso3 = [], sectors = [], total_prod = [],
     mriot_type = ''None'', cntry_pos = Map.empty, cntry_dir_imp = [], years = [],
     direct_impact = [], direct_aai_agg = [], indirect_impact = [], indirect_aai_agg = [],
     total_impact = [], total_aai_agg = [], io_data = None\<rparr>"

subsection \<open>read_wiod\<close>

text \<open>\<^verbatim>\<open>Series.unique()\<close>: the distinct values in the order of their first appearance.\<close>

fun unique_from :: "'a list \<Rightarrow> 'a list \<Rightarrow> 'a list" where
  "unique_from seen [] = []"
| "unique_from seen (x # xs) =
     (if x \<in> set seen then unique_from seen xs else x # unique_from (x # seen) xs)"

definition unique :: "'a list \<Rightarrow> 'a list" where
  "unique xs = unique_from [] xs"

text \<open>
  The dictionary comprehension of \<^verbatim>\<open>read_wiod\<close>:
  \<^verbatim>\<open>{iso3: range(len(sectors)*i, len(sectors)*(i+1)) for i, iso3 in enumerate(countries_iso3)}\<close>.
\<close>

definition cntry_pos_of :: "string list \<Rightarrow> string list \<Rightarrow> (string \<rightharpoonup> nat list)" where
  "cntry_pos_of secs cntrs =
     foldl (\<lambda>m (i, iso3). m(iso3 \<mapsto> [length secs * i ..< length secs * (i + 1)]))
       Map.empty (enumerate 0 cntrs)"

text \<open>
  \<^verbatim>\<open>read_wiod\<close> after the spreadsheet has been read: \<open>sector_col\<close> and \<open>iso3_col\<close> are
  the two label columns, \<open>data\<close> the block of flows and \<open>last_col\<close> the last column of
  the sheet, each cut to the hard-coded rows and columns.
\<close>

definition read_wiod ::
  "string list \<Rightarrow> string list \<Rightarrow> matrix \<Rightarrow> fnum list \<Rightarrow> supplychain \<Rightarrow> supplychain" where
  "read_wiod sector_col iso3_col data last_col s =
     s\<lparr>sectors := sector_col,
       countries_iso3 := unique iso3_col,
       mriot_data := data,
       total_prod := last_col,
       cntry_pos := cntry_pos_of sector_col (unique iso3_col),
       mriot_type := ''wiod''\<rparr>"

subsection \<open>calc_sector_direct_impact\<close>

text \<open>
  The collaborators of \<^verbatim>\<open>calc_sector_direct_impact\<close> are parameters of the model:
  \<open>countries_by_numeric\<close> is the table of the \<^verbatim>\<open>iso3166\<close> package (numeric code, as
  a string, to alpha-3 code), \<open>impact_year_set\<close> is the impact calculation
  (\<^verbatim>\<open>Impact.calc\<close> followed by \<^verbatim>\<open>calc_impact_year_set\<close>, for the given hazard and
  impact functions) applied to one country's normalised exposures, and \<open>event_years\<close>
  are the years of the hazard's event dates. An exposure is a row of the
  \<^verbatim>\<open>GeoDataFrame\<close> with its \<^verbatim>\<open>region_id\<close> and \<^verbatim>\<open>value\<close> columns.
\<close>

record exp_row =
  region_id :: nat
  exp_value :: fnum

definition built_in_subsec_pos :: "string \<rightharpoonup> nat list" where
  "built_in_subsec_pos =
     [''service'' \<mapsto> [26..<56], ''manufacturing'' \<mapsto> [4..<23],
      ''agriculture'' \<mapsto> [0..<1], ''mining'' \<mapsto> [3..<4]]"

text \<open>\<^verbatim>\<open>if not selected_subsec\<close> holds for \<^verbatim>\<open>None\<close> and for the empty list.\<close>

definition select_subsec :: "string \<Rightarrow> nat list option \<Rightarrow> error + nat list" where
  "select_subsec sector_type selected_subsec =
     (case selected_subsec of
        Some (p # ps) \<Rightarrow> Inr (p # ps)
      | _ \<Rightarrow> (case built_in_subsec_pos sector_type of
                None \<Rightarrow> Inl KeyError
              | Some r \<Rightarrow> Inr r))"

text \<open>\<^verbatim>\<open>str\<close> of a non-negative integer.\<close>

fun str :: "nat \<Rightarrow> string" where
  "str n = (if n < 10 then [''0123456789'' ! n]
            else str (n div 10) @ [''0123456789'' ! (n mod 10)])"

declare str.simps [simp del]

text \<open>
  The normalisation of one country's exposures. \<^verbatim>\<open>Series.sum()\<close> skips not-a-number
  entries; the division is the element-wise division of \<^verbatim>\<open>pandas\<close>.
\<close>

definition normalize_exposure :: "exp_row list \<Rightarrow> exp_row list" where
  "normalize_exposure cntyr_exp =
     (let total_ctry_value = nansum (map exp_value cntyr_exp)
      in map (\<lambda>r. r\<lparr>exp_value := fdiv (exp_value r) total_ctry_value\<rparr>) cntyr_exp)"

text \<open>
  \<^verbatim>\<open>a[:, pos] += b\<close>: for each row the entries at \<open>pos\<close> are read, \<open>b\<close> is added, and
  the sums are written back one position after the other.
\<close>

definition scatter :: "fnum list \<Rightarrow> nat list \<Rightarrow> fnum list \<Rightarrow> fnum list" where
  "scatter row pos vals = foldl (\<lambda>r (p, v). r[p := v]) row (zip pos vals)"

definition iadd_columns :: "matrix \<Rightarrow> nat list \<Rightarrow> matrix \<Rightarrow> matrix" where
  "iadd_columns a pos b =
     map (\<lambda>(row, brow). scatter row pos (map (\<lambda>(p, v). fadd (row ! p) v) (zip pos brow)))
       (zip a b)"

text \<open>
  The second dimension \<^verbatim>\<open>len(countries_iso3) * len(sectors)\<close> with which
  \<^verbatim>\<open>direct_impact\<close> is allocated. \<^verbatim>\<open>indirect_impact\<close> and \<^verbatim>\<open>total_impact\<close> take
  their shape from \<^verbatim>\<open>direct_impact\<close>, so it is the length of the three aggregates too,
  also when there is no year and the arrays have no row.
\<close>

definition width :: "supplychain \<Rightarrow> nat" where
  "width s = length (countries_iso3 s) * length (sectors s)"

text \<open>The body of the loop over the countries of the exposures.\<close>

definition direct_impact_cntry ::
  "(string \<rightharpoonup> string) \<Rightarrow> (exp_row list \<Rightarrow> fnum list) \<Rightarrow> exp_row list \<Rightarrow> nat list \<Rightarrow>
     supplychain \<Rightarrow> nat \<Rightarrow> error + supplychain" where
  "direct_impact_cntry countries_by_numeric impact_year_set gdf selected_subsec s cntry =
     (let cntyr_exp = normalize_exposure (filter (\<lambda>r. region_id r = cntry) gdf);
          imp_year_set = impact_year_set cntyr_exp
      in case countries_by_numeric (str cntry) of
           None \<Rightarrow> Inl AttributeError
         | Some alpha3 \<Rightarrow>
             let cntry_iso3 = (if alpha3 \<in> set (countries_iso3 s) then alpha3 else ''ROW'')
             in (case cntry_pos s cntry_iso3 of
                   None \<Rightarrow> Inl KeyError
                 | Some [] \<Rightarrow> Inl IndexError
                 | Some (start # _) \<Rightarrow>
                     let subsec_cntry_pos = map (\<lambda>p. p + start) selected_subsec
                     in if \<exists>p \<in> set subsec_cntry_pos. length (mriot_data s) \<le> p
                        then Inl IndexError
                        else
                          let subsec_cntry_prod =
                                sum_axis1 (map (\<lambda>p. mriot_data s ! p) subsec_cntry_pos)
                          in if length imp_year_set \<noteq> length (years s) then Inl ValueError
                             else
                               let direct_impact_cntry =
                                     map (\<lambda>imp. map (\<lambda>prod. fmul imp prod) subsec_cntry_prod)
                                       imp_year_set
                               in if \<exists>p \<in> set subsec_cntry_pos. width s \<le> p
                                  then Inl IndexError
                                  else Inr (s\<lparr>cntry_dir_imp := cntry_dir_imp s @ [cntry_iso3],
                                              direct_impact :=
                                                iadd_columns (direct_impact s) subsec_cntry_pos
                                                  direct_impact_cntry\<rparr>)))"

fun direct_impact_loop ::
  "(string \<rightharpoonup> string) \<Rightarrow> (exp_row list \<Rightarrow> fnum list) \<Rightarrow> exp_row list \<Rightarrow> nat list \<Rightarrow>
     supplychain \<Rightarrow> nat list \<Rightarrow> error + supplychain" where
  "direct_impact_loop cbn iys gdf sel s [] = Inr s"
| "direct_impact_loop cbn iys gdf sel s (cntry # cs) =
     (case direct_impact_cntry cbn iys gdf sel s cntry of
        Inl e \<Rightarrow> Inl e
      | Inr s' \<Rightarrow> direct_impact_loop cbn iys gdf sel s' cs)"

definition calc_sector_direct_impact ::
  "(string \<rightharpoonup> string) \<Rightarrow> (exp_row list \<Rightarrow> fnum list) \<Rightarrow> int list \<Rightarrow> exp_row list \<Rightarrow>
     string \<Rightarrow> nat list option \<Rightarrow> supplychain \<Rightarrow> error + supplychain" where
  "calc_sector_direct_impact countries_by_numeric impact_year_set event_years gdf
       sector_type selected_subsec s =
     (case select_subsec sector_type selected_subsec of
        Inl e \<Rightarrow> Inl e
      | Inr sel \<Rightarrow>
          let yrs = sort (remdups event_years);
              unique_regid_same_order = unique (map region_id gdf);
              s0 = s\<lparr>years := yrs,
                     direct_impact := zeros (length yrs) (width s),
                     cntry_dir_imp := []\<rparr>
          in (case direct_impact_loop countries_by_numeric impact_year_set gdf sel s0
                     unique_regid_same_order of
                Inl e \<Rightarrow> Inl e
              | Inr s1 \<Rightarrow>
                  Inr (s1\<lparr>direct_aai_agg := mean_axis0 (width s1) (direct_impact s1)\<rparr>)))"

subsection \<open>calc_indirect_impact\<close>

text \<open>
  \<^verbatim>\<open>m.T\<close> as the list of the columns, \<^verbatim>\<open>m[:, j] = v\<close>, and
  \<^verbatim>\<open>risk_structure[:, idx, year_i] = v\<close> on the three-dimensional array
  (\<open>rs ! i ! j ! y\<close> is \<^verbatim>\<open>risk_structure[i, j, y]\<close>). The arrays have the shapes that
  \<^verbatim>\<open>read_wiod\<close> and \<^verbatim>\<open>calc_sector_direct_impact\<close> give them: the table is square,
  \<^verbatim>\<open>total_prod\<close> has one entry for each of its rows and \<^verbatim>\<open>direct_impact\<close> one row
  for each year. The theorems state the shapes they rely on as hypotheses; what
  \<^verbatim>\<open>numpy\<close> does with arrays of other shapes (broadcasting or an exception) is not
  modelled.
\<close>

type_synonym tensor = "fnum list list list"

definition ncols :: "matrix \<Rightarrow> nat" where
  "ncols m = (case m of [] \<Rightarrow> 0 | row # _ \<Rightarrow> length row)"

definition transpose_m :: "matrix \<Rightarrow> matrix" where
  "transpose_m m = map (column m) [0..<ncols m]"

definition set_column :: "matrix \<Rightarrow> nat \<Rightarrow> fnum list \<Rightarrow> matrix" where
  "set_column m j v = map (\<lambda>i. (m ! i)[j := v ! i]) [0..<length m]"

definition set_slice :: "tensor \<Rightarrow> nat \<Rightarrow> nat \<Rightarrow> fnum list \<Rightarrow> tensor" where
  "set_slice rs idx year_i v =
     map (\<lambda>i. (rs ! i)[idx := (rs ! i ! idx)[year_i := v ! i]]) [0..<length rs]"

definition year_slice :: "tensor \<Rightarrow> nat \<Rightarrow> matrix" where
  "year_slice rs year_i = map (\<lambda>plane. map (\<lambda>cell. cell ! year_i) plane) rs"

definition identity :: "nat \<Rightarrow> matrix" where
  "identity n = map (\<lambda>i. map (\<lambda>j. if i = j then Fin 1 else Fin 0) [0..<n]) [0..<n]"

definition msub :: "matrix \<Rightarrow> matrix \<Rightarrow> matrix" where
  "msub a b = map2 (map2 fsub) a b"

definition madd :: "matrix \<Rightarrow> matrix \<Rightarrow> matrix" where
  "madd a b = map2 (map2 fadd) a b"

definition zeros_like :: "matrix \<Rightarrow> matrix" where
  "zeros_like m = map (map (\<lambda>_. Fin 0)) m"

text \<open>The two loops that fill the coefficient matrix.\<close>

definition coefficients_by_column :: "matrix \<Rightarrow> fnum list \<Rightarrow> matrix" where
  "coefficients_by_column data tp =
     foldl (\<lambda>coefficients (col_i, col).
              if fgt (tp ! col_i) (Fin 0)
              then set_column coefficients col_i (map (\<lambda>x. fdiv x (tp ! col_i)) col)
              else set_column coefficients col_i (replicate (length coefficients) (Fin 0)))
       (zeros_like data) (enumerate 0 (transpose_m data))"

definition coefficients_by_row :: "matrix \<Rightarrow> fnum list \<Rightarrow> matrix" where
  "coefficients_by_row data tp =
     foldl (\<lambda>coefficients (row_i, row).
              if fgt (tp ! row_i) (Fin 0)
              then coefficients[row_i := map (\<lambda>x. fdiv x (tp ! row_i)) row]
              else coefficients[row_i := replicate (length (coefficients ! row_i)) (Fin 0)])
       (zeros_like data) (enumerate 0 data)"

definition compute_coefficients :: "string \<Rightarrow> matrix \<Rightarrow> fnum list \<Rightarrow> matrix" where
  "compute_coefficients io_approach data tp =
     (if io_approach \<in> set [''leontief'', ''eeioa''] then coefficients_by_column data tp
      else coefficients_by_row data tp)"

text \<open>The direct intensity of one year.\<close>

definition direct_intensity_of :: "fnum list \<Rightarrow> fnum list \<Rightarrow> fnum list" where
  "direct_intensity_of direct_impact_yearly tp =
     foldl (\<lambda>direct_intensity (idx, (impact, production)).
              if fgt production (Fin 0)
              then direct_intensity[idx := fdiv impact production]
              else direct_intensity[idx := Fin 0])
       (map (\<lambda>_. Fin 0) direct_impact_yearly)
       (enumerate 0 (zip direct_impact_yearly tp))"

text \<open>The three propagation rules.\<close>

definition leontief_calc ::
  "supplychain \<Rightarrow> fnum list \<Rightarrow> matrix \<Rightarrow> tensor \<Rightarrow> nat \<Rightarrow> tensor" where
  "leontief_calc s direct_intensity inverse' rs year_i =
     (let demand = map2 fsub (total_prod s) (nansum_axis1 (mriot_data s));
          degr_demand = map2 fmul direct_intensity demand
      in foldl (\<lambda>rs (idx, row). set_slice rs idx year_i (map2 fmul row degr_demand))
           rs (enumerate 0 inverse'))"

definition ghosh_calc ::
  "supplychain \<Rightarrow> fnum list \<Rightarrow> matrix \<Rightarrow> tensor \<Rightarrow> nat \<Rightarrow> tensor" where
  "ghosh_calc s direct_intensity inverse' rs year_i =
     (let value_added = map2 fsub (total_prod s) (nansum_axis0 (ncols (mriot_data s)) (mriot_data s));
          degr_value_added =
            map2 fmaximum (map2 fmul direct_intensity value_added)
              (map (\<lambda>_. Fin 0) value_added)
      in foldl (\<lambda>rs (idx, col). set_slice rs idx year_i (map2 fmul degr_value_added col))
           rs (enumerate 0 (transpose_m inverse')))"

definition eeioa_calc ::
  "supplychain \<Rightarrow> fnum list \<Rightarrow> matrix \<Rightarrow> tensor \<Rightarrow> nat \<Rightarrow> tensor" where
  "eeioa_calc s direct_intensity inverse' rs year_i =
     foldl (\<lambda>rs (idx, col).
              set_slice rs idx year_i
                (map (\<lambda>x. fmul x (total_prod s ! idx)) (map2 fmul direct_intensity col)))
       rs (enumerate 0 (transpose_m inverse'))"

definition io_switch ::
  "string \<rightharpoonup> (supplychain \<Rightarrow> fnum list \<Rightarrow> matrix \<Rightarrow> tensor \<Rightarrow> nat \<Rightarrow> tensor)" where
  "io_switch = [''leontief'' \<mapsto> leontief_calc, ''ghosh'' \<mapsto> ghosh_calc,
                ''eeioa'' \<mapsto> eeioa_calc]"

text \<open>
  The loop over the indices of the years. The dictionary of the approaches is looked up
  in every round.
\<close>

fun indirect_loop ::
  "supplychain \<Rightarrow> string \<Rightarrow> matrix \<Rightarrow> nat list \<Rightarrow> matrix \<times> tensor \<Rightarrow>
     error + matrix \<times> tensor" where
  "indirect_loop s io_approach inverse' [] acc = Inr acc"
| "indirect_loop s io_approach inverse' (year_i # ys) (indirect, rs) =
     (let direct_impact_yearly = direct_impact s ! year_i;
          direct_intensity = direct_intensity_of direct_impact_yearly (total_prod s)
      in case io_switch io_approach of
           None \<Rightarrow> Inl KeyError
         | Some calc \<Rightarrow>
             let rs' = calc s direct_intensity inverse' rs year_i;
                 slice = year_slice rs' year_i
             in indirect_loop s io_approach inverse' ys
                  (indirect[year_i := nansum_axis0 (ncols slice) slice], rs'))"

text \<open>
  \<open>linalg_inv\<close> stands for \<^verbatim>\<open>np.linalg.inv\<close>, with \<open>None\<close> for its
  \<^verbatim>\<open>LinAlgError\<close>.
\<close>

definition calc_indirect_impact ::
  "(matrix \<Rightarrow> matrix option) \<Rightarrow> string \<Rightarrow> supplychain \<Rightarrow> error + supplychain" where
  "calc_indirect_impact linalg_inv io_approach s =
     (let coefficients = compute_coefficients io_approach (mriot_data s) (total_prod s)
      in case linalg_inv (msub (identity (length (mriot_data s))) coefficients) of
           None \<Rightarrow> Inl LinAlgError
         | Some inverse' \<Rightarrow>
             let indirect0 = zeros_like (direct_impact s);
                 rs0 = map (map (\<lambda>_. replicate (length (years s)) (Fin 0))) (mriot_data s)
             in (case indirect_loop s io_approach inverse' [0..<length (years s)] (indirect0, rs0) of
                   Inl e \<Rightarrow> Inl e
                 | Inr (indirect, rs) \<Rightarrow>
                     Inr (s\<lparr>indirect_impact := indirect,
                            indirect_aai_agg := mean_axis0 (width s) indirect,
                            io_data := Some \<lparr>coefficients = coefficients, inverse_mat = inverse',
                              risk_structure = rs, approach = io_approach\<rparr>\<rparr>)))"

subsection \<open>calc_total_impact\<close>

definition calc_total_impact :: "supplychain \<Rightarrow> supplychain" where
  "calc_total_impact s =
     (let total = madd (indirect_impact s) (direct_impact s)
      in s\<lparr>total_impact := total, total_aai_agg := mean_axis0 (width s) total\<rparr>)"

text \<open>The lengths along the second and the third axis of a three-dimensional array.\<close>

definition shape3 :: "tensor \<Rightarrow> nat list list" where
  "shape3 rs = map (map length) rs"

section \<open>A small table\<close>

text \<open>
  A table of two countries with one sector each: flows \<open>[[10, 5], [5, 10]]\<close>, total
  production \<open>[20, 20]\<close>, and a direct impact of \<open>100\<close> on the first row in the year
  2020. \<open>inv_2x2\<close> inverts a two-by-two array of
  finite numbers and is what \<^verbatim>\<open>np.linalg.inv\<close> is taken to be in the examples.
\<close>

definition inv_2x2 :: "matrix \<Rightarrow> matrix option" where
  "inv_2x2 m =
     (case m of
        [[Fin a, Fin b], [Fin c, Fin d]] \<Rightarrow>
          (if a * d - b * c = 0 then None
           else Some [[Fin (d / (a * d - b * c)), Fin (- b / (a * d - b * c))],
                      [Fin (- c / (a * d - b * c)), Fin (a / (a * d - b * c))]])
      | _ \<Rightarrow> None)"

definition example_chain :: supplychain where
  "example_chain =
     (read_wiod [''s1''] [''CHE'', ''ROW'']
        [[Fin 10, Fin 5], [Fin 5, Fin 10]] [Fin 20, Fin 20] init)
       \<lparr>years := [2020], direct_impact := [[Fin 100, Fin 0]]\<rparr>"

definition example_io :: "string \<Rightarrow> tensor \<Rightarrow> io_data" where
  "example_io io_approach rs =
     \<lparr>coefficients = [[Fin (1 / 2), Fin (1 / 4)], [Fin (1 / 4), Fin (1 / 2)]],
      inverse_mat = [[Fin (8 / 3), Fin (4 / 3)], [Fin (4 / 3), Fin (8 / 3)]],
      risk_structure = rs, approach = io_approach\<rparr>"

text \<open>
  A second table, in which the first column of the flows adds up to more than the total
  production of the first row, so that its value added is negative.
\<close>

definition example_deficit :: supplychain where
  "example_deficit =
     (read_wiod [''s1''] [''CHE'', ''ROW'']
        [[Fin 10, Fin 5], [Fin 15, Fin 10]] [Fin 20, Fin 20] init)
       \<lparr>years := [2020], direct_impact := [[Fin 100, Fin 0]]\<rparr>"

definition example_deficit_io :: io_data where
  "example_deficit_io =
     \<lparr>coefficients = [[Fin (1 / 2), Fin (1 / 4)], [Fin (3 / 4), Fin (1 / 2)]],
      inverse_mat = [[Fin 8, Fin 4], [Fin 12, Fin 8]],
      risk_structure = [[[Fin 0], [Fin 0]], [[Fin 0], [Fin 0]]], approach = ''ghosh''\<rparr>"

text \<open>
  Exposures in Germany and France, neither of which is a country of the table, a table of
  numeric codes for them, and an impact calculation with one year whose loss is a tenth
  of the exposed value in Germany and a fifth elsewhere.
\<close>

definition example_numeric :: "string \<rightharpoonup> string" where
  "example_numeric = [''756'' \<mapsto> ''CHE'', ''276'' \<mapsto> ''DEU'', ''250'' \<mapsto> ''FRA'']"

definition example_impact :: "exp_row list \<Rightarrow> fnum list" where
  "example_impact cntyr_exp =
     [fsum (map (\<lambda>r. fmul (exp_value r)
                        (if region_id r = 276 then Fin (1 / 10) else Fin (1 / 5)))
          cntyr_exp)]"

definition example_gdf :: "exp_row list" where
  "example_gdf = [\<lparr>region_id = 276, exp_value = Fin 3\<rparr>,
                  \<lparr>region_id = 250, exp_value = Fin 2\<rparr>,
                  \<lparr>region_id = 276, exp_value = Fin 1\<rparr>]"

definition example_table :: supplychain where
  "example_table =
     read_wiod [''s1''] [''CHE'', ''ROW'']
       [[Fin 10, Fin 5], [Fin 5, Fin 10]] [Fin 20, Fin 20] init"

definition example_start :: supplychain where
  "example_start =
     example_table\<lparr>years := [2020], direct_impact := [[Fin 0, Fin 0]], cntry_dir_imp := []\<rparr>"

section \<open>Properties\<close>

lemma unique_from_set: "set (unique_from seen xs) = set xs - set seen"
  by (induction xs arbitrary: seen) auto

lemma unique_from_distinct: "distinct (unique_from seen xs)"
  by (induction xs arbitrary: seen) (auto simp: unique_from_set)

lemma unique_distinct: "distinct (unique xs)"
  by (simp add: unique_def unique_from_distinct)

subsection \<open>Loops that update a list or a dictionary at the running index\<close>

lemma foldl_enum_update_length:
  "length (foldl (\<lambda>c (i, x). c[i := G i x (c ! i)]) c (enumerate k xs)) = length c"
  by (induction xs arbitrary: c k) auto

lemma foldl_enum_update_nth:
  "j < length c \<Longrightarrow>
   foldl (\<lambda>c (i, x). c[i := G i x (c ! i)]) c (enumerate k xs) ! j =
     (if k \<le> j \<and> j < k + length xs then G j (xs ! (j - k)) (c ! j) else c ! j)"
proof (induction xs arbitrary: c k)
  case Nil
  then show ?case by auto
next
  case (Cons x xs)
  have len: "j < length (c[k := G k x (c ! k)])" using Cons.prems by simp
  show ?case
  proof (cases "j = k")
    case True
    then show ?thesis using Cons.IH [OF len, of "Suc k"] Cons.prems by simp
  next
    case False
    then show ?thesis using Cons.IH [OF len, of "Suc k"] Cons.prems
      by (auto simp: nth_Cons' Suc_diff_Suc)
  qed
qed

lemma dict_fold_other:
  "c \<notin> set cs \<Longrightarrow> foldl (\<lambda>m (i, key). m(key \<mapsto> g i)) m (enumerate k cs) c = m c"
  by (induction cs arbitrary: m k) auto

lemma dict_fold_nth:
  "distinct cs \<Longrightarrow> i < length cs \<Longrightarrow>
   foldl (\<lambda>m (i, key). m(key \<mapsto> g i)) m0 (enumerate k cs) (cs ! i) = Some (g (k + i))"
proof (induction cs arbitrary: m0 k i)
  case Nil
  then show ?case by simp
next
  case (Cons c cs)
  show ?case
  proof (cases i)
    case 0
    have notin: "c \<notin> set cs" using Cons.prems by simp
    show ?thesis using 0
      by (simp add: dict_fold_other [OF notin] fun_upd_same del: fun_upd_apply)
  next
    case (Suc i')
    then show ?thesis using Cons.IH [of i' _ "Suc k"] Cons.prems by simp
  qed
qed

subsection \<open>The row ranges of the countries\<close>

lemma cntry_pos_of_nth:
  "distinct cs \<Longrightarrow> i < length cs \<Longrightarrow>
   cntry_pos_of secs cs (cs ! i) = Some [length secs * i ..< length secs * (i + 1)]"
  unfolding cntry_pos_of_def
  using dict_fold_nth [of cs i "\<lambda>i. [length secs * i ..< length secs * (i + 1)]" Map.empty 0]
  by simp

lemma concat_ranges:
  "concat (map (\<lambda>i. [n * i ..< n * (i + 1)]) [0..<k]) = [0 ..< n * k]"
proof (induction k)
  case 0
  then show ?case by simp
next
  case (Suc k)
  have "[0 ..< n * Suc k] = [0 ..< n * k] @ [n * k ..< n * Suc k]"
    by (metis mult_Suc_right upt_add_eq_append zero_le add.commute)
  then show ?case using Suc by simp
qed

text \<open>
  Claim C9. After \<^verbatim>\<open>read_wiod\<close> the country codes are distinct, the dictionary
  \<^verbatim>\<open>cntry_pos\<close> maps the country at position \<open>i\<close> to the range from
  \<open>sector_count * i\<close> up to, and without, \<open>sector_count * (i + 1)\<close>, and these ranges,
  taken in the order of the countries, are exactly the row numbers from \<open>0\<close> up to the
  number of countries times the number of sectors, each once: no gap and no overlap.
\<close>

theorem read_wiod_cntry_pos_partition:
  assumes "s' = read_wiod sector_col iso3_col data last_col s"
  shows "(\<forall>i < length (countries_iso3 s').
            cntry_pos s' (countries_iso3 s' ! i)
              = Some [length (sectors s') * i ..< length (sectors s') * (i + 1)])
         \<and> distinct (countries_iso3 s')
         \<and> concat (map (\<lambda>i. [length (sectors s') * i ..< length (sectors s') * (i + 1)])
              [0 ..< length (countries_iso3 s')])
             = [0 ..< length (sectors s') * length (countries_iso3 s')]"
proof -
  have secs: "sectors s' = sector_col" and cs: "countries_iso3 s' = unique iso3_col"
    and pos: "cntry_pos s' = cntry_pos_of sector_col (unique iso3_col)"
    using assms by (simp_all add: read_wiod_def)
  have d: "distinct (unique iso3_col)" by (rule unique_distinct)
  show ?thesis
    unfolding secs cs pos
    using d cntry_pos_of_nth [OF d]
      concat_ranges [of "length sector_col" "length (unique iso3_col)"]
    by blast
qed

theorem read_wiod_cntry_pos_partition_witness:
  "countries_iso3 (read_wiod [''s1'', ''s2''] [''CHE'', ''CHE'', ''ROW'', ''ROW''] [] [] init)
     = [''CHE'', ''ROW'']
   \<and> cntry_pos (read_wiod [''s1'', ''s2''] [''CHE'', ''CHE'', ''ROW'', ''ROW''] [] [] init)
       ''ROW'' = Some [2, 3]"
proof -
  let ?S = "read_wiod [''s1'', ''s2''] [''CHE'', ''CHE'', ''ROW'', ''ROW''] [] [] init"
  have cs: "countries_iso3 ?S = [''CHE'', ''ROW'']"
    by (simp add: read_wiod_def unique_def)
  have secs: "sectors ?S = [''s1'', ''s2'']"
    by (simp add: read_wiod_def)
  have "\<forall>i < length (countries_iso3 ?S).
          cntry_pos ?S (countries_iso3 ?S ! i)
            = Some [length (sectors ?S) * i ..< length (sectors ?S) * (i + 1)]"
    using read_wiod_cntry_pos_partition [OF refl,
        of "[''s1'', ''s2'']" "[''CHE'', ''CHE'', ''ROW'', ''ROW'']" "[]" "[]" init]
    by (rule conjunct1)
  then have "1 < length (countries_iso3 ?S) \<longrightarrow>
      cntry_pos ?S (countries_iso3 ?S ! 1)
        = Some [length (sectors ?S) * 1 ..< length (sectors ?S) * (1 + 1)]"
    by (rule spec)
  then have "cntry_pos ?S ''ROW'' = Some [2 ..< 4]"
    unfolding cs secs by simp
  then show ?thesis using cs by (simp add: upt_rec)
qed

subsection \<open>The coefficient matrix and the direct intensity\<close>

lemma direct_intensity_of_loop:
  "(\<lambda>direct_intensity (idx, (impact, production)).
              if fgt production (Fin 0)
              then direct_intensity[idx := fdiv impact production]
              else direct_intensity[idx := Fin 0])
        = (\<lambda>c (i, x). c[i := (\<lambda>i x old. if fgt (snd x) (Fin 0) then fdiv (fst x) (snd x) else Fin 0) i x (c ! i)])"
  by (auto simp: fun_eq_iff)

lemma direct_intensity_of_length:
  "length (direct_intensity_of dy tp) = length dy"
  unfolding direct_intensity_of_def direct_intensity_of_loop
  using foldl_enum_update_length [where G = "\<lambda>i x old. if fgt (snd x) (Fin 0) then fdiv (fst x) (snd x) else Fin 0"
      and c = "map (\<lambda>_. Fin 0) dy" and k = 0 and xs = "zip dy tp"]
  by simp

lemma direct_intensity_of_nth:
  assumes "row < length dy" "row < length tp"
  shows "direct_intensity_of dy tp ! row =
           (if fgt (tp ! row) (Fin 0) then fdiv (dy ! row) (tp ! row) else Fin 0)"
  unfolding direct_intensity_of_def direct_intensity_of_loop
  using assms foldl_enum_update_nth [where G = "\<lambda>i x old. if fgt (snd x) (Fin 0) then fdiv (fst x) (snd x) else Fin 0"
      and c = "map (\<lambda>_. Fin 0) dy" and k = 0 and xs = "zip dy tp" and j = row]
  by simp


lemma set_column_length: "length (set_column m j v) = length m"
  by (simp add: set_column_def)

lemma set_column_row_length:
  "i < length m \<Longrightarrow> length (set_column m j v ! i) = length (m ! i)"
  by (simp add: set_column_def)

lemma set_column_nth:
  "i < length m \<Longrightarrow> j' < length (m ! i) \<Longrightarrow>
   set_column m j v ! i ! j' = (if j' = j then v ! i else m ! i ! j')"
  by (simp add: set_column_def nth_list_update)

lemma foldl_set_column_length:
  "length (foldl (\<lambda>c (j, x). set_column c j (H j x (length c))) c (enumerate k xs)) = length c"
  by (induction xs arbitrary: c k) (auto simp: set_column_length)

lemma foldl_set_column_nth:
  "i < length c \<Longrightarrow> j < length (c ! i) \<Longrightarrow>
   foldl (\<lambda>c (j, x). set_column c j (H j x (length c))) c (enumerate k xs) ! i ! j =
     (if k \<le> j \<and> j < k + length xs then H j (xs ! (j - k)) (length c) ! i else c ! i ! j)"
proof (induction xs arbitrary: c k)
  case Nil
  then show ?case by auto
next
  case (Cons x xs)
  let ?c = "set_column c k (H k x (length c))"
  have len: "i < length ?c" and rlen: "j < length (?c ! i)" and l: "length ?c = length c"
    using Cons.prems by (simp_all add: set_column_length set_column_row_length)
  show ?case
  proof (cases "j = k")
    case True
    then show ?thesis using Cons.IH [OF len rlen, of "Suc k"] Cons.prems
      by (simp add: set_column_nth l)
  next
    case False
    then show ?thesis using Cons.IH [OF len rlen, of "Suc k"] Cons.prems
      by (auto simp: nth_Cons' Suc_diff_Suc set_column_nth l)
  qed
qed

lemma coefficients_by_column_loop:
  "(\<lambda>coefficients (col_i, col).
              if fgt (tp ! col_i) (Fin 0)
              then set_column coefficients col_i (map (\<lambda>x. fdiv x (tp ! col_i)) col)
              else set_column coefficients col_i (replicate (length coefficients) (Fin 0)))
   = (\<lambda>c (j, x). set_column c j
        ((\<lambda>j col n. if fgt (tp ! j) (Fin 0) then map (\<lambda>x. fdiv x (tp ! j)) col
                     else replicate n (Fin 0)) j x (length c)))"
  by (auto simp: fun_eq_iff)

lemma ncols_rect: "i < length m \<Longrightarrow> \<forall>row \<in> set m. length row = n \<Longrightarrow> ncols m = n"
  by (cases m) (auto simp: ncols_def)

lemma coefficients_by_column_nth:
  assumes "\<forall>row \<in> set data. length row = n" "i < length data" "j < n"
  shows "coefficients_by_column data tp ! i ! j =
           (if fgt (tp ! j) (Fin 0) then fdiv (data ! i ! j) (tp ! j) else Fin 0)"
proof -
  have nc: "ncols data = n" using assms ncols_rect by blast
  have li: "length (data ! i) = n" using assms by simp
  have a: "i < length (zeros_like data)" and b: "j < length (zeros_like data ! i)"
    using assms li by (simp_all add: zeros_like_def)
  have tr: "length (transpose_m data) = n" "transpose_m data ! j = column data j"
    using assms nc by (simp_all add: transpose_m_def)
  show ?thesis
    unfolding coefficients_by_column_def coefficients_by_column_loop
    using foldl_set_column_nth [OF a b, where k = 0 and xs = "transpose_m data"
        and H = "\<lambda>j col n. if fgt (tp ! j) (Fin 0) then map (\<lambda>x. fdiv x (tp ! j)) col
                     else replicate n (Fin 0)"]
      assms tr
    by (simp add: column_def zeros_like_def)
qed

lemma coefficients_by_row_loop:
  "(\<lambda>coefficients (row_i, row).
              if fgt (tp ! row_i) (Fin 0)
              then coefficients[row_i := map (\<lambda>x. fdiv x (tp ! row_i)) row]
              else coefficients[row_i := replicate (length (coefficients ! row_i)) (Fin 0)])
   = (\<lambda>c (i, x). c[i := (\<lambda>i row old. if fgt (tp ! i) (Fin 0)
         then map (\<lambda>x. fdiv x (tp ! i)) row else replicate (length old) (Fin 0)) i x (c ! i)])"
  by (auto simp: fun_eq_iff)

lemma coefficients_by_row_nth:
  assumes "i < length data" "j < length (data ! i)"
  shows "coefficients_by_row data tp ! i ! j =
           (if fgt (tp ! i) (Fin 0) then fdiv (data ! i ! j) (tp ! i) else Fin 0)"
proof -
  have a: "i < length (zeros_like data)" using assms by (simp add: zeros_like_def)
  show ?thesis
    unfolding coefficients_by_row_def coefficients_by_row_loop
    using foldl_enum_update_nth [OF a, where k = 0 and xs = data
        and G = "\<lambda>i row old. if fgt (tp ! i) (Fin 0)
         then map (\<lambda>x. fdiv x (tp ! i)) row else replicate (length old) (Fin 0)"]
      assms
    by (simp add: zeros_like_def)
qed

lemma calc_indirect_impact_coefficients:
  assumes "calc_indirect_impact linalg_inv io_approach s = Inr s'"
  shows "\<exists>d. io_data s' = Some d \<and> approach d = io_approach \<and>
     coefficients d = compute_coefficients io_approach (mriot_data s) (total_prod s)"
  using assms
  by (auto simp: calc_indirect_impact_def Let_def split: option.splits sum.splits prod.splits)

lemma fle_not_fgt: "fle a b \<Longrightarrow> \<not> fgt a b"
  by (simp add: fle_def)


subsection \<open>The propagation rules and the loop over the years\<close>

lemma set_slice_length: "length (set_slice rs idx y v) = length rs"
  by (simp add: set_slice_def)

lemma set_slice_plane_length:
  "i < length rs \<Longrightarrow> length (set_slice rs idx y v ! i) = length (rs ! i)"
  by (simp add: set_slice_def)

lemma set_slice_cell_length:
  "i < length rs \<Longrightarrow> j < length (rs ! i) \<Longrightarrow>
   length (set_slice rs idx y v ! i ! j) = length (rs ! i ! j)"
  by (cases "j = idx") (simp_all add: set_slice_def)

lemma set_slice_nth:
  "i < length rs \<Longrightarrow> j < length (rs ! i) \<Longrightarrow> y' < length (rs ! i ! j) \<Longrightarrow>
   set_slice rs idx y v ! i ! j ! y' = (if j = idx \<and> y' = y then v ! i else rs ! i ! j ! y')"
  by (cases "j = idx"; cases "y' = y") (simp_all add: set_slice_def)

lemma foldl_set_slice_length:
  "length (foldl (\<lambda>rs (idx, x). set_slice rs idx y (H idx x)) rs (enumerate k xs)) = length rs"
  by (induction xs arbitrary: rs k) (auto simp: set_slice_length)

lemma foldl_set_slice_plane_length:
  "i < length rs \<Longrightarrow>
   length (foldl (\<lambda>rs (idx, x). set_slice rs idx y (H idx x)) rs (enumerate k xs) ! i)
     = length (rs ! i)"
  by (induction xs arbitrary: rs k) (auto simp: set_slice_length set_slice_plane_length)

lemma foldl_set_slice_cell_length:
  "i < length rs \<Longrightarrow> j < length (rs ! i) \<Longrightarrow>
   length (foldl (\<lambda>rs (idx, x). set_slice rs idx y (H idx x)) rs (enumerate k xs) ! i ! j)
     = length (rs ! i ! j)"
  by (induction xs arbitrary: rs k)
    (auto simp: set_slice_length set_slice_plane_length set_slice_cell_length)

lemma foldl_set_slice_nth:
  "i < length rs \<Longrightarrow> j < length (rs ! i) \<Longrightarrow> y' < length (rs ! i ! j) \<Longrightarrow>
   foldl (\<lambda>rs (idx, x). set_slice rs idx y (H idx x)) rs (enumerate k xs) ! i ! j ! y' =
     (if y' = y \<and> k \<le> j \<and> j < k + length xs then H j (xs ! (j - k)) ! i
      else rs ! i ! j ! y')"
proof (induction xs arbitrary: rs k)
  case Nil
  then show ?case by auto
next
  case (Cons x xs)
  let ?rs = "set_slice rs k y (H k x)"
  have a: "i < length ?rs" and b: "j < length (?rs ! i)" and c: "y' < length (?rs ! i ! j)"
    using Cons.prems
    by (simp_all add: set_slice_length set_slice_plane_length set_slice_cell_length)
  show ?case
  proof (cases "j = k")
    case True
    then show ?thesis using Cons.IH [OF a b c, of "Suc k"] Cons.prems
      by (simp add: set_slice_nth)
  next
    case False
    then show ?thesis using Cons.IH [OF a b c, of "Suc k"] Cons.prems
      by (auto simp: nth_Cons' Suc_diff_Suc set_slice_nth)
  qed
qed

lemma leontief_calc_nth:
  assumes "i < length rs" "r < length (rs ! i)" "y' < length (rs ! i ! r)"
    and "r < length inverse'" "i < length (inverse' ! r)"
    and "i < length direct_intensity" "i < length (total_prod s)" "i < length (mriot_data s)"
  shows "leontief_calc s direct_intensity inverse' rs year_i ! i ! r ! y' =
           (if y' = year_i
            then fmul (inverse' ! r ! i)
                   (fmul (direct_intensity ! i)
                      (fsub (total_prod s ! i) (nansum (mriot_data s ! i))))
            else rs ! i ! r ! y')"
  unfolding leontief_calc_def Let_def
  using assms
    foldl_set_slice_nth [OF assms(1-3), where k = 0 and xs = inverse' and y = year_i
      and H = "\<lambda>idx row. map2 fmul row
         (map2 fmul direct_intensity (map2 fsub (total_prod s) (nansum_axis1 (mriot_data s))))"]
  by (simp add: nansum_axis1_def)

lemma column_length: "length (column m j) = length m"
  by (simp add: column_def)

lemma column_nth: "i < length m \<Longrightarrow> column m j ! i = m ! i ! j"
  by (simp add: column_def)

lemma transpose_m_nth: "j < ncols m \<Longrightarrow> transpose_m m ! j = column m j"
  by (simp add: transpose_m_def)

lemma transpose_m_length: "length (transpose_m m) = ncols m"
  by (simp add: transpose_m_def)

lemma ghosh_calc_nth:
  assumes "i < length rs" "c < length (rs ! i)" "y' < length (rs ! i ! c)"
    and "c < ncols inverse'" "i < length inverse'"
    and "i < length direct_intensity" "i < length (total_prod s)" "i < ncols (mriot_data s)"
  shows "ghosh_calc s direct_intensity inverse' rs year_i ! i ! c ! y' =
           (if y' = year_i
            then fmul (fmaximum
                         (fmul (direct_intensity ! i)
                            (fsub (total_prod s ! i) (nansum (column (mriot_data s) i))))
                         (Fin 0))
                   (inverse' ! i ! c)
            else rs ! i ! c ! y')"
  unfolding ghosh_calc_def Let_def
  using assms
    foldl_set_slice_nth [OF assms(1-3), where k = 0 and xs = "transpose_m inverse'"
      and y = year_i
      and H = "\<lambda>idx col. map2 fmul
         (map2 fmaximum
           (map2 fmul direct_intensity
              (map2 fsub (total_prod s) (nansum_axis0 (ncols (mriot_data s)) (mriot_data s))))
           (map (\<lambda>_. Fin 0)
              (map2 fsub (total_prod s) (nansum_axis0 (ncols (mriot_data s)) (mriot_data s)))))
         col"]
  by (simp add: nansum_axis0_def transpose_m_nth transpose_m_length column_nth column_length)

lemma eeioa_calc_nth:
  assumes "i < length rs" "c < length (rs ! i)" "y' < length (rs ! i ! c)"
    and "c < ncols inverse'" "i < length inverse'" "i < length direct_intensity"
  shows "eeioa_calc s direct_intensity inverse' rs year_i ! i ! c ! y' =
           (if y' = year_i
            then fmul (fmul (direct_intensity ! i) (inverse' ! i ! c)) (total_prod s ! c)
            else rs ! i ! c ! y')"
  unfolding eeioa_calc_def
  using assms
    foldl_set_slice_nth [OF assms(1-3), where k = 0 and xs = "transpose_m inverse'"
      and y = year_i
      and H = "\<lambda>idx col. map (\<lambda>x. fmul x (total_prod s ! idx)) (map2 fmul direct_intensity col)"]
  by (simp add: transpose_m_nth transpose_m_length column_nth column_length)


lemma shape3_eqI:
  assumes "length a = length b"
    and "\<And>i. i < length b \<Longrightarrow> length (a ! i) = length (b ! i)"
    and "\<And>i j. i < length b \<Longrightarrow> j < length (b ! i) \<Longrightarrow> length (a ! i ! j) = length (b ! i ! j)"
  shows "shape3 a = shape3 b"
  unfolding shape3_def
  using assms by (auto intro!: nth_equalityI)

lemma shape3_length: "shape3 a = shape3 b \<Longrightarrow> length a = length b"
  unfolding shape3_def by (rule map_eq_imp_length_eq)

lemma shape3_plane_length:
  assumes "shape3 a = shape3 b" "i < length b"
  shows "length (a ! i) = length (b ! i)"
proof -
  have "length a = length b" using assms(1) by (rule shape3_length)
  moreover have "shape3 a ! i = shape3 b ! i" using assms(1) by simp
  ultimately have "map length (a ! i) = map length (b ! i)"
    using assms(2) by (simp add: shape3_def)
  then show ?thesis by (rule map_eq_imp_length_eq)
qed

lemma shape3_cell_length:
  assumes "shape3 a = shape3 b" "i < length b" "j < length (b ! i)"
  shows "length (a ! i ! j) = length (b ! i ! j)"
proof -
  have l: "length a = length b" using assms(1) by (rule shape3_length)
  have p: "length (a ! i) = length (b ! i)" using assms(1,2) by (rule shape3_plane_length)
  have "shape3 a ! i ! j = shape3 b ! i ! j" using assms(1) by simp
  then show ?thesis using assms(2,3) l p by (simp add: shape3_def)
qed

lemma year_slice_nth:
  "i < length rs \<Longrightarrow> j < length (rs ! i) \<Longrightarrow> year_slice rs y ! i ! j = rs ! i ! j ! y"
  by (simp add: year_slice_def)

lemma year_slice_eqI:
  assumes "shape3 a = shape3 b"
    and "\<And>i j. i < length b \<Longrightarrow> j < length (b ! i) \<Longrightarrow> a ! i ! j ! y = b ! i ! j ! y"
  shows "year_slice a y = year_slice b y"
proof -
  have l: "length a = length b" using assms(1) by (rule shape3_length)
  have p: "\<And>i. i < length b \<Longrightarrow> length (a ! i) = length (b ! i)"
    using assms(1) by (rule shape3_plane_length)
  show ?thesis
    unfolding year_slice_def
    using l p assms(2) by (auto intro!: nth_equalityI)
qed

lemma io_switch_cases:
  assumes "io_switch io_approach = Some calc"
  shows "calc = leontief_calc \<or> calc = ghosh_calc \<or> calc = eeioa_calc"
  using assms by (auto simp: io_switch_def split: if_splits)

lemma io_switch_form:
  assumes "io_switch io_approach = Some calc"
  shows "\<exists>(H :: nat \<Rightarrow> fnum list \<Rightarrow> fnum list) (xs :: matrix). \<forall>rs y.
           calc s di inverse' rs y =
             foldl (\<lambda>rs (idx, x). set_slice rs idx y (H idx x)) rs (enumerate 0 xs)"
proof -
  consider "calc = leontief_calc" | "calc = ghosh_calc" | "calc = eeioa_calc"
    using io_switch_cases [OF assms] by blast
  then show ?thesis
  proof cases
    case 1
    show ?thesis unfolding 1 leontief_calc_def Let_def
      by (rule exI [where x = "\<lambda>idx row. map2 fmul row
            (map2 fmul di (map2 fsub (total_prod s) (nansum_axis1 (mriot_data s))))"],
          rule exI [where x = inverse'], simp)
  next
    case 2
    show ?thesis unfolding 2 ghosh_calc_def Let_def
      by (rule exI [where x = "\<lambda>idx col. map2 fmul
            (map2 fmaximum
              (map2 fmul di
                (map2 fsub (total_prod s)
                  (nansum_axis0 (ncols (mriot_data s)) (mriot_data s))))
              (map (\<lambda>_. Fin 0)
                (map2 fsub (total_prod s)
                  (nansum_axis0 (ncols (mriot_data s)) (mriot_data s))))) col"],
          rule exI [where x = "transpose_m inverse'"], simp)
  next
    case 3
    show ?thesis unfolding 3 eeioa_calc_def
      by (rule exI [where x = "\<lambda>idx col. map (\<lambda>x. fmul x (total_prod s ! idx))
            (map2 fmul di col)"],
          rule exI [where x = "transpose_m inverse'"], simp)
  qed
qed

lemma calc_shape:
  assumes "io_switch io_approach = Some calc"
  shows "shape3 (calc s di inverse' rs y) = shape3 rs"
proof -
  obtain H :: "nat \<Rightarrow> fnum list \<Rightarrow> fnum list" and xs :: matrix
    where f: "\<And>rs y. calc s di inverse' rs y =
           foldl (\<lambda>rs (idx, x). set_slice rs idx y (H idx x)) rs (enumerate 0 xs)"
    using io_switch_form [OF assms, of s di inverse'] by blast
  show ?thesis unfolding f
    by (rule shape3_eqI)
      (simp_all add: foldl_set_slice_length foldl_set_slice_plane_length
        foldl_set_slice_cell_length)
qed

lemma calc_frame:
  assumes "io_switch io_approach = Some calc" "y' \<noteq> y"
    and "\<forall>row \<in> set (shape3 rs). \<forall>l \<in> set row. y' < l"
  shows "year_slice (calc s di inverse' rs y) y' = year_slice rs y'"
proof (rule year_slice_eqI)
  show "shape3 (calc s di inverse' rs y) = shape3 rs" using assms(1) by (rule calc_shape)
next
  fix i j assume i: "i < length rs" and j: "j < length (rs ! i)"
  obtain H :: "nat \<Rightarrow> fnum list \<Rightarrow> fnum list" and xs :: matrix
    where f: "\<And>rs y. calc s di inverse' rs y =
           foldl (\<lambda>rs (idx, x). set_slice rs idx y (H idx x)) rs (enumerate 0 xs)"
    using io_switch_form [OF assms(1), of s di inverse'] by blast
  have "length (rs ! i ! j) \<in> set (shape3 rs ! i)" "shape3 rs ! i \<in> set (shape3 rs)"
    using i j by (simp_all add: shape3_def)
  then have y: "y' < length (rs ! i ! j)" using assms(3) by blast
  show "calc s di inverse' rs y ! i ! j ! y' = rs ! i ! j ! y'"
    unfolding f
    using foldl_set_slice_nth [OF i j y, where y = y and H = H and k = 0 and xs = xs] assms(2)
    by simp
qed


lemma indirect_loop_invariant:
  assumes "indirect_loop s io_approach inverse' ys (ind, rs) = Inr (ind', rs')"
    and "distinct ys"
    and "\<forall>y \<in> set ys. y < length ind \<and> y < Y"
    and "\<forall>row \<in> set (shape3 rs). \<forall>l \<in> set row. l = Y"
  shows "shape3 rs' = shape3 rs \<and> length ind' = length ind
    \<and> (\<forall>y'. y' < Y \<and> y' \<notin> set ys \<longrightarrow> year_slice rs' y' = year_slice rs y')
    \<and> (\<forall>y'. y' \<notin> set ys \<longrightarrow> ind' ! y' = ind ! y')
    \<and> (\<forall>y \<in> set ys. ind' ! y = nansum_axis0 (ncols (year_slice rs' y)) (year_slice rs' y))
    \<and> (\<forall>y \<in> set ys. \<exists>rs_mid calc. io_switch io_approach = Some calc
          \<and> shape3 rs_mid = shape3 rs
          \<and> year_slice rs' y =
              year_slice (calc s (direct_intensity_of (direct_impact s ! y) (total_prod s))
                 inverse' rs_mid y) y)"
  using assms
proof (induction ys arbitrary: ind rs)
  case Nil
  then show ?case by simp
next
  case (Cons y ys)
  let ?di = "direct_intensity_of (direct_impact s ! y) (total_prod s)"
  obtain calc where calc: "io_switch io_approach = Some calc"
    using Cons.prems(1) by (cases "io_switch io_approach") (simp_all add: Let_def)
  let ?rs1 = "calc s ?di inverse' rs y"
  let ?ind1 = "ind[y := nansum_axis0 (ncols (year_slice ?rs1 y)) (year_slice ?rs1 y)]"
  have rest: "indirect_loop s io_approach inverse' ys (?ind1, ?rs1) = Inr (ind', rs')"
    using Cons.prems(1) calc by (simp add: Let_def)
  have sh1: "shape3 ?rs1 = shape3 rs" using calc by (rule calc_shape)
  have d: "distinct ys" and ynot: "y \<notin> set ys" using Cons.prems(2) by simp_all
  have yb: "y < length ind" "y < Y" using Cons.prems(3) by simp_all
  have b: "\<forall>y \<in> set ys. y < length ?ind1 \<and> y < Y" using Cons.prems(3) by simp
  have c: "\<forall>row \<in> set (shape3 ?rs1). \<forall>l \<in> set row. l = Y"
    unfolding sh1 using Cons.prems(4) .
  note IH = Cons.IH [OF rest d b c]
  have i1: "shape3 rs' = shape3 ?rs1" and i2: "length ind' = length ?ind1"
    and i3: "\<And>y'. y' < Y \<Longrightarrow> y' \<notin> set ys \<Longrightarrow> year_slice rs' y' = year_slice ?rs1 y'"
    and i4: "\<And>y'. y' \<notin> set ys \<Longrightarrow> ind' ! y' = ?ind1 ! y'"
    and i5: "\<And>y'. y' \<in> set ys \<Longrightarrow>
          ind' ! y' = nansum_axis0 (ncols (year_slice rs' y')) (year_slice rs' y')"
    and i6: "\<And>y'. y' \<in> set ys \<Longrightarrow> \<exists>rs_mid calc. io_switch io_approach = Some calc
          \<and> shape3 rs_mid = shape3 ?rs1
          \<and> year_slice rs' y' =
              year_slice (calc s (direct_intensity_of (direct_impact s ! y') (total_prod s))
                 inverse' rs_mid y') y'"
    using IH by blast+
  have frame: "\<And>y'. y' < Y \<Longrightarrow> y' \<noteq> y \<Longrightarrow> year_slice ?rs1 y' = year_slice rs y'"
  proof -
    fix y' assume "y' < Y" "y' \<noteq> y"
    then have "\<forall>row \<in> set (shape3 rs). \<forall>l \<in> set row. y' < l"
      using Cons.prems(4) by auto
    then show "year_slice ?rs1 y' = year_slice rs y'"
      using calc \<open>y' \<noteq> y\<close> calc_frame by blast
  qed
  have own: "year_slice rs' y = year_slice ?rs1 y" using i3 [OF yb(2) ynot] .
  have c1: "shape3 rs' = shape3 rs" using i1 sh1 by simp
  have c2: "length ind' = length ind" using i2 by simp
  have c3: "\<forall>y'. y' < Y \<and> y' \<notin> set (y # ys) \<longrightarrow> year_slice rs' y' = year_slice rs y'"
    using i3 frame by simp
  have c4: "\<forall>y'. y' \<notin> set (y # ys) \<longrightarrow> ind' ! y' = ind ! y'"
    using i4 by simp
  have "ind' ! y = ?ind1 ! y" using i4 [OF ynot] .
  then have "ind' ! y = nansum_axis0 (ncols (year_slice rs' y)) (year_slice rs' y)"
    using yb(1) own by simp
  then have c5: "\<forall>y' \<in> set (y # ys).
      ind' ! y' = nansum_axis0 (ncols (year_slice rs' y')) (year_slice rs' y')"
    using i5 by simp
  have "\<exists>rs_mid calc. io_switch io_approach = Some calc \<and> shape3 rs_mid = shape3 rs
          \<and> year_slice rs' y = year_slice (calc s ?di inverse' rs_mid y) y"
    using calc own by blast
  then have c6: "\<forall>y' \<in> set (y # ys). \<exists>rs_mid calc. io_switch io_approach = Some calc
          \<and> shape3 rs_mid = shape3 rs
          \<and> year_slice rs' y' =
              year_slice (calc s (direct_intensity_of (direct_impact s ! y') (total_prod s))
                 inverse' rs_mid y') y'"
    using i6 sh1 by auto
  show ?case using c1 c2 c3 c4 c5 c6 by blast
qed


lemma calc_indirect_impact_Inr:
  assumes "calc_indirect_impact linalg_inv io_approach s = Inr s'"
  shows "\<exists>inverse' ind rs.
      linalg_inv (msub (identity (length (mriot_data s)))
         (compute_coefficients io_approach (mriot_data s) (total_prod s))) = Some inverse'
    \<and> indirect_loop s io_approach inverse' [0..<length (years s)]
         (zeros_like (direct_impact s),
          map (map (\<lambda>_. replicate (length (years s)) (Fin 0))) (mriot_data s))
        = Inr (ind, rs)
    \<and> s' = s\<lparr>indirect_impact := ind,
             indirect_aai_agg := mean_axis0 (width s) ind,
             io_data := Some \<lparr>coefficients =
                 compute_coefficients io_approach (mriot_data s) (total_prod s),
               inverse_mat = inverse', risk_structure = rs, approach = io_approach\<rparr>\<rparr>"
  using assms
  by (auto simp: calc_indirect_impact_def Let_def split: option.splits sum.splits prod.splits)

lemma rs0_cells:
  "\<forall>row \<in> set (shape3 (map (map (\<lambda>_. replicate Y (Fin 0))) data)). \<forall>l \<in> set row. l = Y"
  by (auto simp: shape3_def)

lemma shape3_map_length: "shape3 a = shape3 b \<Longrightarrow> map length a = map length b"
proof -
  assume "shape3 a = shape3 b"
  then have "map length (shape3 a) = map length (shape3 b)" by simp
  then show ?thesis by (simp add: shape3_def comp_def)
qed

lemma ncols_cong: "map length a = map length b \<Longrightarrow> ncols a = ncols b"
  by (cases a; cases b) (simp_all add: ncols_def)

lemma year_slice_lengths: "map length (year_slice rs y) = map length rs"
  by (simp add: year_slice_def)

lemma calc_indirect_impact_loop_facts:
  assumes "calc_indirect_impact linalg_inv io_approach s = Inr s'"
    and "io_data s' = Some d"
    and "length (direct_impact s) = length (years s)"
    and "year_i < length (years s)"
  shows "shape3 (risk_structure d)
           = shape3 (map (map (\<lambda>_. replicate (length (years s)) (Fin 0))) (mriot_data s))"
    and "indirect_impact s' ! year_i =
           nansum_axis0 (ncols (year_slice (risk_structure d) year_i))
             (year_slice (risk_structure d) year_i)"
    and "\<exists>rs_mid calc. io_switch io_approach = Some calc
          \<and> shape3 rs_mid
              = shape3 (map (map (\<lambda>_. replicate (length (years s)) (Fin 0))) (mriot_data s))
          \<and> year_slice (risk_structure d) year_i =
              year_slice (calc s (direct_intensity_of (direct_impact s ! year_i) (total_prod s))
                 (inverse_mat d) rs_mid year_i) year_i"
proof -
  let ?rs0 = "map (map (\<lambda>_. replicate (length (years s)) (Fin 0))) (mriot_data s)"
  obtain inverse' ind rs where
    loop: "indirect_loop s io_approach inverse' [0..<length (years s)]
         (zeros_like (direct_impact s), ?rs0) = Inr (ind, rs)"
    and s': "s' = s\<lparr>indirect_impact := ind,
             indirect_aai_agg := mean_axis0 (width s) ind,
             io_data := Some \<lparr>coefficients =
                 compute_coefficients io_approach (mriot_data s) (total_prod s),
               inverse_mat = inverse', risk_structure = rs, approach = io_approach\<rparr>\<rparr>"
    using calc_indirect_impact_Inr [OF assms(1)] by blast
  have d: "risk_structure d = rs" "inverse_mat d = inverse'" and ind: "indirect_impact s' = ind"
    using assms(2) s' by auto
  have b: "\<forall>y \<in> set [0..<length (years s)].
      y < length (zeros_like (direct_impact s)) \<and> y < length (years s)"
    using assms(3) by (simp add: zeros_like_def)
  note inv = indirect_loop_invariant [OF loop distinct_upt b rs0_cells]
  have y: "year_i \<in> set [0..<length (years s)]" using assms(4) by simp
  show "shape3 (risk_structure d) = shape3 ?rs0" using inv d by simp
  show "indirect_impact s' ! year_i =
           nansum_axis0 (ncols (year_slice (risk_structure d) year_i))
             (year_slice (risk_structure d) year_i)"
    using inv y unfolding d ind by blast
  show "\<exists>rs_mid calc. io_switch io_approach = Some calc
          \<and> shape3 rs_mid = shape3 ?rs0
          \<and> year_slice (risk_structure d) year_i =
              year_slice (calc s (direct_intensity_of (direct_impact s ! year_i) (total_prod s))
                 (inverse_mat d) rs_mid year_i) year_i"
    using inv y unfolding d by blast
qed

lemma calc_indirect_impact_nansum:
  assumes "calc_indirect_impact linalg_inv io_approach s = Inr s'"
    and "io_data s' = Some d"
    and "length (direct_impact s) = length (years s)"
    and "year_i < length (years s)"
  shows "indirect_impact s' ! year_i =
           nansum_axis0 (ncols (mriot_data s)) (year_slice (risk_structure d) year_i)"
proof -
  note f = calc_indirect_impact_loop_facts [OF assms]
  have "map length (year_slice (risk_structure d) year_i) = map length (mriot_data s)"
    using shape3_map_length [OF f(1)] by (simp add: year_slice_lengths comp_def)
  then have "ncols (year_slice (risk_structure d) year_i) = ncols (mriot_data s)"
    by (rule ncols_cong)
  then show ?thesis using f(2) by simp
qed


lemma risk_structure_entry:
  assumes "calc_indirect_impact linalg_inv io_approach s = Inr s'"
    and "io_data s' = Some d"
    and "length (direct_impact s) = length (years s)"
    and "year_i < length (years s)"
    and "i < length (mriot_data s)" and "j < length (mriot_data s ! i)"
  shows "\<exists>rs_mid calc. io_switch io_approach = Some calc
          \<and> i < length rs_mid \<and> j < length (rs_mid ! i) \<and> year_i < length (rs_mid ! i ! j)
          \<and> risk_structure d ! i ! j ! year_i =
              calc s (direct_intensity_of (direct_impact s ! year_i) (total_prod s))
                 (inverse_mat d) rs_mid year_i ! i ! j ! year_i"
proof -
  let ?rs0 = "map (map (\<lambda>_. replicate (length (years s)) (Fin 0))) (mriot_data s)"
  let ?di = "direct_intensity_of (direct_impact s ! year_i) (total_prod s)"
  note f = calc_indirect_impact_loop_facts [OF assms(1-4)]
  obtain rs_mid calc where calc: "io_switch io_approach = Some calc"
    and mid: "shape3 rs_mid = shape3 ?rs0"
    and sl: "year_slice (risk_structure d) year_i =
              year_slice (calc s ?di (inverse_mat d) rs_mid year_i) year_i"
    using f(3) by blast
  have i0: "i < length ?rs0" and j0: "j < length (?rs0 ! i)"
    and y0: "year_i < length (?rs0 ! i ! j)"
    using assms(4-6) by simp_all
  have im: "i < length rs_mid" using shape3_length [OF mid] i0 by simp
  have jm: "j < length (rs_mid ! i)" using shape3_plane_length [OF mid i0] j0 by simp
  have ym: "year_i < length (rs_mid ! i ! j)" using shape3_cell_length [OF mid i0 j0] y0 by simp
  have id: "i < length (risk_structure d)" using shape3_length [OF f(1)] i0 by simp
  have jd: "j < length (risk_structure d ! i)" using shape3_plane_length [OF f(1) i0] j0 by simp
  let ?out = "calc s ?di (inverse_mat d) rs_mid year_i"
  have so: "shape3 ?out = shape3 rs_mid" using calc by (rule calc_shape)
  have io: "i < length ?out" using shape3_length [OF so] im by simp
  have jo: "j < length (?out ! i)" using shape3_plane_length [OF so im] jm by simp
  have "risk_structure d ! i ! j ! year_i = year_slice (risk_structure d) year_i ! i ! j"
    using id jd by (simp add: year_slice_nth)
  also have "\<dots> = year_slice ?out year_i ! i ! j" using sl by simp
  also have "\<dots> = ?out ! i ! j ! year_i" using io jo by (simp add: year_slice_nth)
  finally show ?thesis using calc im jm ym by blast
qed

lemma nansum_no_nan: "\<forall>x \<in> set xs. \<not> is_nan x \<Longrightarrow> nansum xs = fsum xs"
  by (simp add: nansum_def nan_to_zero_def map_idI)

lemma io_switch_leontief: "io_switch ''leontief'' = Some calc \<Longrightarrow> calc = leontief_calc"
  by (simp add: io_switch_def)

lemma io_switch_ghosh: "io_switch ''ghosh'' = Some calc \<Longrightarrow> calc = ghosh_calc"
  by (simp add: io_switch_def)


subsection \<open>The small table, evaluated\<close>

lemma example_fields:
  "mriot_data example_chain = [[Fin 10, Fin 5], [Fin 5, Fin 10]]"
  "total_prod example_chain = [Fin 20, Fin 20]"
  "years example_chain = [2020]"
  "direct_impact example_chain = [[Fin 100, Fin 0]]"
  "width example_chain = 2"
  by (simp_all add: example_chain_def read_wiod_def init_def width_def unique_def)

lemma example_coeff_col:
  "compute_coefficients ''leontief'' [[Fin 10, Fin 5], [Fin 5, Fin 10]] [Fin 20, Fin 20]
    = [[Fin (1 / 2), Fin (1 / 4)], [Fin (1 / 4), Fin (1 / 2)]]"
  by (simp add: compute_coefficients_def coefficients_by_column_def transpose_m_def ncols_def
      column_def zeros_like_def set_column_def enumerate_eq_zip upt_rec)

lemma example_coeff_row:
  "compute_coefficients ''ghosh'' [[Fin 10, Fin 5], [Fin 5, Fin 10]] [Fin 20, Fin 20]
    = [[Fin (1 / 2), Fin (1 / 4)], [Fin (1 / 4), Fin (1 / 2)]]"
  by (simp add: compute_coefficients_def coefficients_by_row_def
      zeros_like_def enumerate_eq_zip upt_rec)

lemma example_inv:
  "inv_2x2 (msub (identity (length [[Fin 10, Fin 5], [Fin 5, Fin 10]]))
      [[Fin (1 / 2), Fin (1 / 4)], [Fin (1 / 4), Fin (1 / 2)]])
    = Some [[Fin (8 / 3), Fin (4 / 3)], [Fin (4 / 3), Fin (8 / 3)]]"
  by (simp add: inv_2x2_def msub_def identity_def fsub_def upt_rec)

lemma example_intensity:
  "direct_intensity_of [Fin 100, Fin 0] [Fin 20, Fin 20] = [Fin 5, Fin 0]"
  by (simp add: direct_intensity_of_def enumerate_eq_zip upt_rec)

lemma example_leontief_calc:
  "leontief_calc example_chain [Fin 5, Fin 0]
      [[Fin (8 / 3), Fin (4 / 3)], [Fin (4 / 3), Fin (8 / 3)]]
      [[[Fin 0], [Fin 0]], [[Fin 0], [Fin 0]]] 0
    = [[[Fin (200 / 3)], [Fin (100 / 3)]], [[Fin 0], [Fin 0]]]"
  by (simp add: leontief_calc_def example_fields nansum_axis1_def nansum_def nan_to_zero_def
      fsum_def fsub_def set_slice_def enumerate_eq_zip upt_rec)

lemma example_nansum:
  "nansum_axis0 (ncols (year_slice [[[Fin (200 / 3)], [Fin (100 / 3)]], [[Fin 0], [Fin 0]]] 0))
      (year_slice [[[Fin (200 / 3)], [Fin (100 / 3)]], [[Fin 0], [Fin 0]]] 0)
    = [Fin (200 / 3), Fin (100 / 3)]"
  by (simp add: year_slice_def nansum_axis0_def ncols_def column_def nansum_def nan_to_zero_def
      fsum_def upt_rec)

lemma example_leontief_loop:
  "indirect_loop example_chain ''leontief''
      [[Fin (8 / 3), Fin (4 / 3)], [Fin (4 / 3), Fin (8 / 3)]] [0..<length [2020::int]]
      (zeros_like [[Fin 100, Fin 0]],
       map (map (\<lambda>_. replicate (length [2020::int]) (Fin 0)))
         [[Fin 10, Fin 5], [Fin 5, Fin 10]])
    = Inr ([[Fin (200 / 3), Fin (100 / 3)]],
           [[[Fin (200 / 3)], [Fin (100 / 3)]], [[Fin 0], [Fin 0]]])"
  by (simp add: upt_rec zeros_like_def io_switch_def example_fields example_intensity
      example_leontief_calc example_nansum)

lemma example_mean:
  "mean_axis0 2 [[Fin (200 / 3), Fin (100 / 3)]] = [Fin (200 / 3), Fin (100 / 3)]"
  by (simp add: mean_axis0_def fmean_def column_def fsum_def upt_rec)

lemma example_leontief:
  "calc_indirect_impact inv_2x2 ''leontief'' example_chain =
     Inr (example_chain\<lparr>indirect_impact := [[Fin (200 / 3), Fin (100 / 3)]],
        indirect_aai_agg := [Fin (200 / 3), Fin (100 / 3)],
        io_data := Some (example_io ''leontief''
           [[[Fin (200 / 3)], [Fin (100 / 3)]], [[Fin 0], [Fin 0]]])\<rparr>)"
  unfolding calc_indirect_impact_def example_fields Let_def example_coeff_col example_inv
  by (simp add: example_io_def example_mean upt_rec zeros_like_def io_switch_def
      example_fields example_intensity example_leontief_calc example_nansum)


text \<open>
  Claim C1. In \<^verbatim>\<open>calc_indirect_impact\<close> the coefficient matrix stored in
  \<^verbatim>\<open>io_data\<close> is, for the approaches \<^verbatim>\<open>'leontief'\<close> and \<^verbatim>\<open>'eeioa'\<close>, the flow
  matrix with column \<open>j\<close> divided by \<open>total_prod[j]\<close>, and for \<^verbatim>\<open>'ghosh'\<close> the flow
  matrix with row \<open>i\<close> divided by \<open>total_prod[i]\<close>; the division takes place where the
  entry of \<open>total_prod\<close> is greater than zero, and a column (a row) whose entry of
  \<open>total_prod\<close> is less than or equal to zero is zero throughout.
\<close>

theorem calc_indirect_impact_coefficients_normalized:
  assumes "calc_indirect_impact linalg_inv io_approach s = Inr s'"
    and "io_data s' = Some d"
    and "length (mriot_data s) = n"
    and "\<forall>row \<in> set (mriot_data s). length row = n"
    and "i < n" and "j < n"
  shows "(io_approach \<in> {''leontief'', ''eeioa''} \<longrightarrow>
            coefficients d ! i ! j =
              (if fgt (total_prod s ! j) (Fin 0)
               then fdiv (mriot_data s ! i ! j) (total_prod s ! j) else Fin 0)
            \<and> (fle (total_prod s ! j) (Fin 0) \<longrightarrow> coefficients d ! i ! j = Fin 0))
       \<and> (io_approach = ''ghosh'' \<longrightarrow>
            coefficients d ! i ! j =
              (if fgt (total_prod s ! i) (Fin 0)
               then fdiv (mriot_data s ! i ! j) (total_prod s ! i) else Fin 0)
            \<and> (fle (total_prod s ! i) (Fin 0) \<longrightarrow> coefficients d ! i ! j = Fin 0))"
proof -
  have c: "coefficients d = compute_coefficients io_approach (mriot_data s) (total_prod s)"
    using calc_indirect_impact_coefficients [OF assms(1)] assms(2) by auto
  have i: "i < length (mriot_data s)" using assms by simp
  have j: "j < length (mriot_data s ! i)" using assms by simp
  have col: "io_approach \<in> {''leontief'', ''eeioa''} \<Longrightarrow>
      coefficients d ! i ! j =
        (if fgt (total_prod s ! j) (Fin 0)
         then fdiv (mriot_data s ! i ! j) (total_prod s ! j) else Fin 0)"
    unfolding c compute_coefficients_def
    using coefficients_by_column_nth [OF assms(4) i assms(6)] by simp
  have row: "io_approach = ''ghosh'' \<Longrightarrow>
      coefficients d ! i ! j =
        (if fgt (total_prod s ! i) (Fin 0)
         then fdiv (mriot_data s ! i ! j) (total_prod s ! i) else Fin 0)"
    unfolding c compute_coefficients_def
    using coefficients_by_row_nth [OF i j] by simp
  show ?thesis using col row by (auto dest: fle_not_fgt)
qed

theorem calc_indirect_impact_coefficients_normalized_witness:
  "calc_indirect_impact inv_2x2 ''leontief'' example_chain =
     Inr (example_chain\<lparr>indirect_impact := [[Fin (200 / 3), Fin (100 / 3)]],
        indirect_aai_agg := [Fin (200 / 3), Fin (100 / 3)],
        io_data := Some (example_io ''leontief''
           [[[Fin (200 / 3)], [Fin (100 / 3)]], [[Fin 0], [Fin 0]]])\<rparr>)
   \<and> coefficients (example_io ''leontief''
           [[[Fin (200 / 3)], [Fin (100 / 3)]], [[Fin 0], [Fin 0]]]) ! 0 ! 1
       = fdiv (Fin 5) (Fin 20)"
  using calc_indirect_impact_coefficients_normalized [OF example_leontief,
      of "example_io ''leontief'' [[[Fin (200 / 3)], [Fin (100 / 3)]], [[Fin 0], [Fin 0]]]"
         2 0 1]
  by (simp add: example_leontief example_fields)

text \<open>
  Claim C4. In the loop over the years of \<^verbatim>\<open>calc_indirect_impact\<close>, the direct intensity
  of a row is the direct impact of that year and row divided by the total production of
  the row when that total production is greater than zero, and zero otherwise, whatever
  the direct impact is.
\<close>

theorem direct_intensity_per_row:
  assumes "row < length (direct_impact s ! year_i)" and "row < length (total_prod s)"
  shows "direct_intensity_of (direct_impact s ! year_i) (total_prod s) ! row =
           (if fgt (total_prod s ! row) (Fin 0)
            then fdiv (direct_impact s ! year_i ! row) (total_prod s ! row)
            else Fin 0)"
  using assms by (rule direct_intensity_of_nth)

theorem direct_intensity_per_row_witness:
  "(0::nat) < length (direct_impact example_chain ! 0)
   \<and> (0::nat) < length (total_prod example_chain)
   \<and> direct_intensity_of (direct_impact example_chain ! 0) (total_prod example_chain) ! 0
       = Fin 5"
  using direct_intensity_per_row [of 0 example_chain 0]
  by (simp add: example_fields)

text \<open>
  Claim C2. With the approach \<^verbatim>\<open>'leontief'\<close> and for every year, the demand of a row
  is its total production minus the sum of its row of the flow matrix (\<^verbatim>\<open>np.nansum\<close>,
  which is the plain sum of a row without not-a-number entries), the degraded demand is the direct intensity times the demand,
  and the risk structure of that year holds, at source row \<open>i\<close> and position \<open>r\<close>, entry
  \<open>i\<close> of row \<open>r\<close> of the inverse times the degraded demand of row \<open>i\<close>:
  \<^verbatim>\<open>risk_structure[:, r, year] = inverse[r] * degr_demand\<close>.
\<close>

theorem leontief_risk_structure:
  assumes "calc_indirect_impact linalg_inv ''leontief'' s = Inr s'"
    and "io_data s' = Some d"
    and "length (mriot_data s) = n" and "\<forall>row \<in> set (mriot_data s). length row = n"
    and "length (total_prod s) = n"
    and "length (direct_impact s) = length (years s)"
    and "\<forall>row \<in> set (direct_impact s). length row = n"
    and "length (inverse_mat d) = n" and "\<forall>row \<in> set (inverse_mat d). length row = n"
    and "year_i < length (years s)" and "i < n" and "r < n"
  shows "risk_structure d ! i ! r ! year_i =
           fmul (inverse_mat d ! r ! i)
             (fmul (direct_intensity_of (direct_impact s ! year_i) (total_prod s) ! i)
                (fsub (total_prod s ! i) (nansum (mriot_data s ! i))))
       \<and> ((\<forall>x \<in> set (mriot_data s ! i). \<not> is_nan x) \<longrightarrow>
            risk_structure d ! i ! r ! year_i =
              fmul (inverse_mat d ! r ! i)
                (fmul (direct_intensity_of (direct_impact s ! year_i) (total_prod s) ! i)
                   (fsub (total_prod s ! i) (fsum (mriot_data s ! i)))))"
proof -
  let ?di = "direct_intensity_of (direct_impact s ! year_i) (total_prod s)"
  have i: "i < length (mriot_data s)" and r: "r < length (mriot_data s ! i)"
    using assms by simp_all
  obtain rs_mid calc where calc: "io_switch ''leontief'' = Some calc"
    and m: "i < length rs_mid" "r < length (rs_mid ! i)" "year_i < length (rs_mid ! i ! r)"
    and e: "risk_structure d ! i ! r ! year_i =
              calc s ?di (inverse_mat d) rs_mid year_i ! i ! r ! year_i"
    using risk_structure_entry [OF assms(1,2,6,10) i r] by blast
  have c: "calc = leontief_calc" using calc by (rule io_switch_leontief)
  have dl: "length ?di = n"
    using assms(6,7,10) by (simp add: direct_intensity_of_length)
  have "leontief_calc s ?di (inverse_mat d) rs_mid year_i ! i ! r ! year_i =
      fmul (inverse_mat d ! r ! i)
        (fmul (?di ! i) (fsub (total_prod s ! i) (nansum (mriot_data s ! i))))"
    using leontief_calc_nth [OF m, of "inverse_mat d" ?di s year_i] assms dl by simp
  then show ?thesis using e c by (simp add: nansum_no_nan)
qed

theorem leontief_risk_structure_witness:
  "calc_indirect_impact inv_2x2 ''leontief'' example_chain =
     Inr (example_chain\<lparr>indirect_impact := [[Fin (200 / 3), Fin (100 / 3)]],
        indirect_aai_agg := [Fin (200 / 3), Fin (100 / 3)],
        io_data := Some (example_io ''leontief''
           [[[Fin (200 / 3)], [Fin (100 / 3)]], [[Fin 0], [Fin 0]]])\<rparr>)
   \<and> risk_structure (example_io ''leontief''
           [[[Fin (200 / 3)], [Fin (100 / 3)]], [[Fin 0], [Fin 0]]]) ! 0 ! 1 ! 0
       = fmul (Fin (4 / 3)) (fmul (Fin 5) (fsub (Fin 20) (nansum [Fin 10, Fin 5])))"
  using leontief_risk_structure [OF example_leontief,
      of "example_io ''leontief'' [[[Fin (200 / 3)], [Fin (100 / 3)]], [[Fin 0], [Fin 0]]]"
         2 0 0 1]
  by (simp add: example_leontief example_fields example_io_def example_intensity)

text \<open>
  Claim C5. For every year, the row of \<^verbatim>\<open>indirect_impact\<close> is the sum over the first
  axis of that year's slice of the risk structure that \<^verbatim>\<open>io_data\<close> holds at the end:
  entry \<open>j\<close> adds \<^verbatim>\<open>risk_structure[i, j, year]\<close> over all source rows \<open>i\<close>, every
  not-a-number entry counting as zero.
\<close>

theorem indirect_impact_nansum:
  assumes "calc_indirect_impact linalg_inv io_approach s = Inr s'"
    and "io_data s' = Some d"
    and "length (direct_impact s) = length (years s)"
    and "\<forall>row \<in> set (mriot_data s). length row = n"
    and "year_i < length (years s)"
  shows "indirect_impact s' ! year_i =
           nansum_axis0 (ncols (mriot_data s)) (year_slice (risk_structure d) year_i)
       \<and> (\<forall>j < ncols (mriot_data s).
            indirect_impact s' ! year_i ! j =
              fsum (map (\<lambda>plane. nan_to_zero (plane ! j ! year_i)) (risk_structure d)))"
proof -
  have a: "indirect_impact s' ! year_i =
      nansum_axis0 (ncols (mriot_data s)) (year_slice (risk_structure d) year_i)"
    using assms(1,2,3,5) by (rule calc_indirect_impact_nansum)
  have sh: "map length (risk_structure d) = map length (mriot_data s)"
    using shape3_map_length [OF calc_indirect_impact_loop_facts(1) [OF assms(1,2,3,5)]]
    by (simp add: comp_def)
  have "\<forall>j < ncols (mriot_data s).
      nansum_axis0 (ncols (mriot_data s)) (year_slice (risk_structure d) year_i) ! j =
        fsum (map (\<lambda>plane. nan_to_zero (plane ! j ! year_i)) (risk_structure d))"
  proof (intro allI impI)
    fix j assume j: "j < ncols (mriot_data s)"
    have n: "mriot_data s \<noteq> [] \<Longrightarrow> ncols (mriot_data s) = n"
      using assms(4) by (cases "mriot_data s") (simp_all add: ncols_def)
    have "mriot_data s \<noteq> []" using j by (auto simp: ncols_def)
    then have jn: "j < n" using j n by simp
    have "\<forall>plane \<in> set (risk_structure d). length plane = n"
    proof
      fix plane assume "plane \<in> set (risk_structure d)"
      then have "length plane \<in> set (map length (mriot_data s))"
        using sh by (metis image_eqI set_map)
      then show "length plane = n" using assms(4) by auto
    qed
    then have eq: "map (\<lambda>plane. nan_to_zero (map (\<lambda>cell. cell ! year_i) plane ! j))
        (risk_structure d)
      = map (\<lambda>plane. nan_to_zero (plane ! j ! year_i)) (risk_structure d)"
      using jn by simp
    have l: "nansum_axis0 (ncols (mriot_data s)) (year_slice (risk_structure d) year_i) ! j =
        fsum (map (\<lambda>plane. nan_to_zero (map (\<lambda>cell. cell ! year_i) plane ! j))
          (risk_structure d))"
      using j by (simp add: nansum_axis0_def nansum_def column_def year_slice_def comp_def)
    show "nansum_axis0 (ncols (mriot_data s)) (year_slice (risk_structure d) year_i) ! j =
        fsum (map (\<lambda>plane. nan_to_zero (plane ! j ! year_i)) (risk_structure d))"
      by (simp only: l eq)
  qed
  then show ?thesis using a by simp
qed

theorem indirect_impact_nansum_witness:
  "calc_indirect_impact inv_2x2 ''leontief'' example_chain =
     Inr (example_chain\<lparr>indirect_impact := [[Fin (200 / 3), Fin (100 / 3)]],
        indirect_aai_agg := [Fin (200 / 3), Fin (100 / 3)],
        io_data := Some (example_io ''leontief''
           [[[Fin (200 / 3)], [Fin (100 / 3)]], [[Fin 0], [Fin 0]]])\<rparr>)
   \<and> [[Fin (200 / 3), Fin (100 / 3)]] ! 0 =
       nansum_axis0 2 (year_slice [[[Fin (200 / 3)], [Fin (100 / 3)]], [[Fin 0], [Fin 0]]] 0)"
  using indirect_impact_nansum [OF example_leontief,
      of "example_io ''leontief'' [[[Fin (200 / 3)], [Fin (100 / 3)]], [[Fin 0], [Fin 0]]]"
         2 0]
  by (simp add: example_leontief example_fields example_io_def ncols_def numeral_2_eq_2)

lemma fmaximum_clamp:
  "fgt a (Fin 0) \<Longrightarrow> fgt (Fin 0) b \<Longrightarrow> fmaximum (fmul a b) (Fin 0) = Fin 0"
  by (cases a; cases b) (auto simp: fmaximum_def inf_of_sign_def mult_pos_neg)

lemma fmaximum_not_negative: "\<not> fgt (Fin 0) (fmaximum a (Fin 0))"
  by (cases a) (auto simp: fmaximum_def)

lemma deficit_fields:
  "mriot_data example_deficit = [[Fin 10, Fin 5], [Fin 15, Fin 10]]"
  "total_prod example_deficit = [Fin 20, Fin 20]"
  "years example_deficit = [2020]"
  "direct_impact example_deficit = [[Fin 100, Fin 0]]"
  "width example_deficit = 2"
  by (simp_all add: example_deficit_def read_wiod_def init_def width_def unique_def)

lemma deficit_coeff:
  "compute_coefficients ''ghosh'' [[Fin 10, Fin 5], [Fin 15, Fin 10]] [Fin 20, Fin 20]
    = [[Fin (1 / 2), Fin (1 / 4)], [Fin (3 / 4), Fin (1 / 2)]]"
  by (simp add: compute_coefficients_def coefficients_by_row_def
      zeros_like_def enumerate_eq_zip upt_rec)

lemma deficit_inv:
  "inv_2x2 (msub (identity (length [[Fin 10, Fin 5], [Fin 15, Fin 10]]))
      [[Fin (1 / 2), Fin (1 / 4)], [Fin (3 / 4), Fin (1 / 2)]])
    = Some [[Fin 8, Fin 4], [Fin 12, Fin 8]]"
  by (simp add: inv_2x2_def msub_def identity_def fsub_def upt_rec)

lemma deficit_ghosh_calc:
  "ghosh_calc example_deficit [Fin 5, Fin 0] [[Fin 8, Fin 4], [Fin 12, Fin 8]]
      [[[Fin 0], [Fin 0]], [[Fin 0], [Fin 0]]] 0
    = [[[Fin 0], [Fin 0]], [[Fin 0], [Fin 0]]]"
  by (simp add: ghosh_calc_def deficit_fields nansum_axis0_def ncols_def column_def
      transpose_m_def nansum_def nan_to_zero_def fmaximum_def
      fsum_def fsub_def set_slice_def enumerate_eq_zip upt_rec)

lemma deficit_nansum:
  "nansum_axis0 (ncols (year_slice [[[Fin 0], [Fin 0]], [[Fin 0], [Fin 0]]] 0))
      (year_slice [[[Fin 0], [Fin 0]], [[Fin 0], [Fin 0]]] 0)
    = [Fin 0, Fin 0]"
  by (simp add: year_slice_def nansum_axis0_def ncols_def column_def nansum_def nan_to_zero_def
      fsum_def upt_rec)

lemma deficit_mean:
  "mean_axis0 2 [[Fin 0, Fin 0]] = [Fin 0, Fin 0]"
  by (simp add: mean_axis0_def fmean_def column_def fsum_def upt_rec)

lemma example_deficit_ghosh:
  "calc_indirect_impact inv_2x2 ''ghosh'' example_deficit =
     Inr (example_deficit\<lparr>indirect_impact := [[Fin 0, Fin 0]],
        indirect_aai_agg := [Fin 0, Fin 0],
        io_data := Some example_deficit_io\<rparr>)"
  unfolding calc_indirect_impact_def deficit_fields Let_def deficit_coeff deficit_inv
  by (simp add: example_deficit_io_def deficit_mean upt_rec zeros_like_def io_switch_def
      deficit_fields example_intensity deficit_ghosh_calc deficit_nansum)

text \<open>
  Claim C3. With the approach \<^verbatim>\<open>'ghosh'\<close> and for every year, the value added of a
  row is its total production minus the sum of its column of the flow matrix
  (\<^verbatim>\<open>np.nansum\<close>, which is the plain sum of a column without not-a-number entries),
  the degraded value added is the greater of the direct
  intensity times the value added and zero, and the risk structure of that year holds,
  at source row \<open>i\<close> and position \<open>c\<close>, the degraded value added of row \<open>i\<close> times entry
  \<open>i\<close> of column \<open>c\<close> of the inverse:
  \<^verbatim>\<open>risk_structure[:, c, year] = degr_value_added * inverse[:, c]\<close>. The degraded value
  added is never below zero, and it is zero when the value added is negative and the
  direct intensity positive.
\<close>

theorem ghosh_risk_structure:
  assumes "calc_indirect_impact linalg_inv ''ghosh'' s = Inr s'"
    and "io_data s' = Some d"
    and "length (mriot_data s) = n" and "\<forall>row \<in> set (mriot_data s). length row = n"
    and "length (total_prod s) = n"
    and "length (direct_impact s) = length (years s)"
    and "\<forall>row \<in> set (direct_impact s). length row = n"
    and "length (inverse_mat d) = n" and "\<forall>row \<in> set (inverse_mat d). length row = n"
    and "year_i < length (years s)" and "i < n" and "c < n"
  shows "let direct_intensity = direct_intensity_of (direct_impact s ! year_i) (total_prod s);
             value_added = fsub (total_prod s ! i) (nansum (column (mriot_data s) i));
             degr_value_added = fmaximum (fmul (direct_intensity ! i) value_added) (Fin 0)
         in risk_structure d ! i ! c ! year_i = fmul degr_value_added (inverse_mat d ! i ! c)
          \<and> \<not> fgt (Fin 0) degr_value_added
          \<and> (fgt (direct_intensity ! i) (Fin 0) \<and> fgt (Fin 0) value_added \<longrightarrow>
               degr_value_added = Fin 0)
          \<and> ((\<forall>x \<in> set (column (mriot_data s) i). \<not> is_nan x) \<longrightarrow>
               value_added = fsub (total_prod s ! i) (fsum (column (mriot_data s) i)))"
proof -
  let ?di = "direct_intensity_of (direct_impact s ! year_i) (total_prod s)"
  let ?va = "fsub (total_prod s ! i) (nansum (column (mriot_data s) i))"
  have i: "i < length (mriot_data s)" and cc: "c < length (mriot_data s ! i)"
    using assms by simp_all
  obtain rs_mid calc where calc: "io_switch ''ghosh'' = Some calc"
    and m: "i < length rs_mid" "c < length (rs_mid ! i)" "year_i < length (rs_mid ! i ! c)"
    and e: "risk_structure d ! i ! c ! year_i =
              calc s ?di (inverse_mat d) rs_mid year_i ! i ! c ! year_i"
    using risk_structure_entry [OF assms(1,2,6,10) i cc] by blast
  have g: "calc = ghosh_calc" using calc by (rule io_switch_ghosh)
  have dl: "length ?di = n"
    using assms(6,7,10) by (simp add: direct_intensity_of_length)
  have nc: "ncols (inverse_mat d) = n" "ncols (mriot_data s) = n"
    using assms(3,4,8,9,11) ncols_rect [of i _ n] by simp_all
  have "ghosh_calc s ?di (inverse_mat d) rs_mid year_i ! i ! c ! year_i =
      fmul (fmaximum (fmul (?di ! i) ?va) (Fin 0)) (inverse_mat d ! i ! c)"
    using ghosh_calc_nth [OF m, of "inverse_mat d" ?di s year_i] assms(3,5,8,11,12) dl nc
    by simp
  then show ?thesis
    unfolding Let_def
    using e g fmaximum_not_negative fmaximum_clamp by (simp add: nansum_no_nan)
qed

theorem ghosh_risk_structure_witness:
  "calc_indirect_impact inv_2x2 ''ghosh'' example_deficit =
     Inr (example_deficit\<lparr>indirect_impact := [[Fin 0, Fin 0]],
        indirect_aai_agg := [Fin 0, Fin 0],
        io_data := Some example_deficit_io\<rparr>)
   \<and> fsub (Fin 20) (nansum [Fin 10, Fin 15]) = Fin (- 5)
   \<and> risk_structure example_deficit_io ! 0 ! 1 ! 0 =
       fmul (fmaximum (fmul (Fin 5) (Fin (- 5))) (Fin 0)) (Fin 4)
   \<and> fmaximum (fmul (Fin 5) (Fin (- 5))) (Fin 0) = Fin 0"
  using ghosh_risk_structure [OF example_deficit_ghosh, of example_deficit_io 2 0 0 1]
  by (simp add: example_deficit_ghosh deficit_fields example_deficit_io_def example_intensity
      column_def nansum_def nan_to_zero_def fsum_def fsub_def Let_def)

subsection \<open>Unrecognised approaches, the direct impact and the aggregates\<close>

lemma io_switch_None:
  "io_approach \<notin> {''leontief'', ''ghosh'', ''eeioa''} \<Longrightarrow> io_switch io_approach = None"
  by (simp add: io_switch_def)

text \<open>
  Claim C10. \<^verbatim>\<open>calc_indirect_impact\<close> does not check its argument \<^verbatim>\<open>io_approach\<close>
  before it computes. For every string other than \<^verbatim>\<open>'leontief'\<close> and \<^verbatim>\<open>'eeioa'\<close>,
  recognised or not, the coefficient matrix is the one normalised by rows, as for
  \<^verbatim>\<open>'ghosh'\<close>, and the inversion is attempted with it (when the inversion fails, its
  error is the result). When the inversion succeeds, a string that is not one of the
  three approaches gives the error of the dictionary look-up in the first round of the
  loop over the years, and with no year the loop is not entered: the call succeeds and
  records the unrecognised string as the approach.
\<close>

theorem io_approach_not_validated:
  assumes "io_approach \<notin> {''leontief'', ''eeioa''}"
  shows "compute_coefficients io_approach (mriot_data s) (total_prod s)
           = coefficients_by_row (mriot_data s) (total_prod s)
     \<and> compute_coefficients io_approach (mriot_data s) (total_prod s)
           = compute_coefficients ''ghosh'' (mriot_data s) (total_prod s)
     \<and> (linalg_inv (msub (identity (length (mriot_data s)))
            (coefficients_by_row (mriot_data s) (total_prod s))) = None \<longrightarrow>
          calc_indirect_impact linalg_inv io_approach s = Inl LinAlgError)
     \<and> (\<forall>inverse'. linalg_inv (msub (identity (length (mriot_data s)))
            (coefficients_by_row (mriot_data s) (total_prod s))) = Some inverse' \<longrightarrow>
          (io_approach \<noteq> ''ghosh'' \<and> years s \<noteq> [] \<longrightarrow>
             calc_indirect_impact linalg_inv io_approach s = Inl KeyError)
        \<and> (years s = [] \<longrightarrow>
             calc_indirect_impact linalg_inv io_approach s =
               Inr (s\<lparr>indirect_impact := zeros_like (direct_impact s),
                      indirect_aai_agg := mean_axis0 (width s) (zeros_like (direct_impact s)),
                      io_data := Some \<lparr>coefficients =
                          coefficients_by_row (mriot_data s) (total_prod s),
                        inverse_mat = inverse',
                        risk_structure = map (map (\<lambda>_. [])) (mriot_data s),
                        approach = io_approach\<rparr>\<rparr>)))"
proof -
  have c: "compute_coefficients io_approach (mriot_data s) (total_prod s)
           = coefficients_by_row (mriot_data s) (total_prod s)"
    using assms by (simp add: compute_coefficients_def)
  have key: "io_approach \<noteq> ''ghosh'' \<Longrightarrow> years s \<noteq> [] \<Longrightarrow>
      indirect_loop s io_approach inverse' [0..<length (years s)] acc = Inl KeyError"
    for inverse' acc
    using assms io_switch_None [of io_approach]
    by (cases acc) (simp add: upt_rec [of 0] Let_def)
  have g: "compute_coefficients ''ghosh'' (mriot_data s) (total_prod s)
           = coefficients_by_row (mriot_data s) (total_prod s)"
    by (simp add: compute_coefficients_def)
  show ?thesis
    unfolding calc_indirect_impact_def Let_def c g
    using key by auto
qed


lemma example_coeff_by_row:
  "coefficients_by_row [[Fin 10, Fin 5], [Fin 5, Fin 10]] [Fin 20, Fin 20]
    = [[Fin (1 / 2), Fin (1 / 4)], [Fin (1 / 4), Fin (1 / 2)]]"
  using example_coeff_row by (simp add: compute_coefficients_def)

theorem io_approach_not_validated_witness:
  "''foo'' \<notin> {''leontief'', ''eeioa''}
   \<and> calc_indirect_impact inv_2x2 ''foo'' example_chain = Inl KeyError
   \<and> calc_indirect_impact inv_2x2 ''foo'' (example_chain\<lparr>years := [], direct_impact := []\<rparr>)
       = Inr (example_chain\<lparr>years := [], direct_impact := [], indirect_impact := [],
            indirect_aai_agg := [NaN, NaN],
            io_data := Some (example_io ''foo'' [[[], []], [[], []]])\<rparr>)"
proof -
  have a: "''foo'' \<notin> {''leontief'', ''eeioa''}" by simp
  have i1: "inv_2x2 (msub (identity (length (mriot_data example_chain)))
      (coefficients_by_row (mriot_data example_chain) (total_prod example_chain)))
    = Some [[Fin (8 / 3), Fin (4 / 3)], [Fin (4 / 3), Fin (8 / 3)]]"
    unfolding example_fields example_coeff_by_row by (rule example_inv)
  let ?z = "example_chain\<lparr>years := [], direct_impact := []\<rparr>"
  have zf: "mriot_data ?z = mriot_data example_chain" "total_prod ?z = total_prod example_chain"
    "years ?z = []" "direct_impact ?z = []" "width ?z = 2"
    using example_fields(5) by (simp_all add: width_def)
  have i2: "inv_2x2 (msub (identity (length (mriot_data ?z)))
      (coefficients_by_row (mriot_data ?z) (total_prod ?z)))
    = Some [[Fin (8 / 3), Fin (4 / 3)], [Fin (4 / 3), Fin (8 / 3)]]"
    unfolding zf using i1 .
  have m: "mean_axis0 2 [] = [NaN, NaN]"
    by (simp add: mean_axis0_def fmean_def column_def fsum_def upt_rec inf_of_sign_def)
  note t1 = io_approach_not_validated [OF a, of example_chain inv_2x2]
  note t2 = io_approach_not_validated [OF a, of ?z inv_2x2]
  have k: "calc_indirect_impact inv_2x2 ''foo'' example_chain = Inl KeyError"
    using t1 i1 by (simp add: example_fields)
  have z: "calc_indirect_impact inv_2x2 ''foo'' ?z
       = Inr (example_chain\<lparr>years := [], direct_impact := [], indirect_impact := [],
            indirect_aai_agg := [NaN, NaN],
            io_data := Some (example_io ''foo'' [[[], []], [[], []]])\<rparr>)"
    using t2 i2 unfolding zf
    by (simp add: example_fields example_coeff_by_row zeros_like_def m example_io_def)
  show ?thesis using a k z by blast
qed

lemma madd_nth:
  "y < length a \<Longrightarrow> y < length b \<Longrightarrow> j < length (a ! y) \<Longrightarrow> j < length (b ! y) \<Longrightarrow>
   madd a b ! y ! j = fadd (a ! y ! j) (b ! y ! j)"
  by (simp add: madd_def)

lemma mean_axis0_nth:
  "j < w \<Longrightarrow> mean_axis0 w m ! j = fdiv (fsum (map (\<lambda>row. row ! j) m)) (Fin (real (length m)))"
  by (simp add: mean_axis0_def fmean_def column_def)

lemma direct_impact_cntry_width:
  "direct_impact_cntry cbn iys gdf sel s cntry = Inr s' \<Longrightarrow> width s' = width s"
  by (auto simp: direct_impact_cntry_def Let_def width_def
      split: option.splits list.splits if_splits)

lemma direct_impact_loop_width:
  "direct_impact_loop cbn iys gdf sel s cs = Inr s' \<Longrightarrow> width s' = width s"
proof (induction cs arbitrary: s)
  case Nil
  then show ?case by simp
next
  case (Cons c cs)
  then show ?case
    by (auto split: sum.splits dest: direct_impact_cntry_width)
qed

lemma calc_sector_direct_impact_aai:
  assumes "calc_sector_direct_impact cbn iys event_years gdf sector_type selected_subsec s
     = Inr s'"
  shows "direct_aai_agg s' = mean_axis0 (width s') (direct_impact s')"
  using assms
  by (auto simp: calc_sector_direct_impact_def Let_def width_def split: sum.splits)

lemma calc_indirect_impact_aai:
  assumes "calc_indirect_impact linalg_inv io_approach s = Inr s'"
  shows "indirect_aai_agg s' = mean_axis0 (width s') (indirect_impact s')"
  using calc_indirect_impact_Inr [OF assms] by (auto simp: width_def)

lemma scatter_length: "length (scatter row pos vals) = length row"
  unfolding scatter_def
  by (induction pos arbitrary: row vals) (auto simp: zip_Cons1 split: list.splits)

lemma scatter_Cons: "scatter row (p # pos) (v # vals) = scatter (row[p := v]) pos vals"
  by (simp add: scatter_def)

lemma scatter_other: "q \<notin> set pos \<Longrightarrow> scatter row pos vals ! q = scatter row [] [] ! q"
proof (induction pos arbitrary: row vals)
  case Nil
  then show ?case by (simp add: scatter_def)
next
  case (Cons p pos)
  show ?case
  proof (cases vals)
    case Nil
    then show ?thesis by (simp add: scatter_def)
  next
    case (Cons v vs)
    then show ?thesis using Cons.IH [of "row[p := v]" vs] Cons.prems
      by (simp add: scatter_Cons) (simp add: scatter_def)
  qed
qed

lemma scatter_nth:
  "distinct pos \<Longrightarrow> length vals = length pos \<Longrightarrow> k < length pos \<Longrightarrow>
   pos ! k < length row \<Longrightarrow> scatter row pos vals ! (pos ! k) = vals ! k"
proof (induction pos arbitrary: row vals k)
  case Nil
  then show ?case by simp
next
  case (Cons p pos)
  then obtain v vs where vals: "vals = v # vs" by (cases vals) auto
  show ?case
  proof (cases k)
    case 0
    have "p \<notin> set pos" using Cons.prems by simp
    then have "scatter (row[p := v]) pos vs ! p = scatter (row[p := v]) [] [] ! p"
      by (rule scatter_other)
    then show ?thesis using 0 vals Cons.prems by (simp add: scatter_Cons) (simp add: scatter_def)
  next
    case (Suc k')
    then show ?thesis using vals Cons.prems Cons.IH [of vs k' "row[p := v]"]
      by (simp add: scatter_Cons)
  qed
qed

lemma iadd_columns_nth:
  assumes "distinct pos" "y < length a" "y < length b" "length (b ! y) = length pos"
    "k < length pos" "pos ! k < length (a ! y)"
  shows "iadd_columns a pos b ! y ! (pos ! k) = fadd (a ! y ! (pos ! k)) (b ! y ! k)"
proof -
  let ?vals = "map (\<lambda>(p, v). fadd (a ! y ! p) v) (zip pos (b ! y))"
  have "iadd_columns a pos b ! y = scatter (a ! y) pos ?vals"
    using assms(2,3) by (simp add: iadd_columns_def)
  moreover have "length ?vals = length pos" using assms(4) by simp
  ultimately show ?thesis
    using scatter_nth [OF assms(1) _ assms(5,6), of ?vals] assms(4,5) by simp
qed

lemma iadd_columns_other:
  assumes "y < length a" "y < length b" "q \<notin> set pos"
  shows "iadd_columns a pos b ! y ! q = a ! y ! q"
  using assms scatter_other [OF assms(3)]
  by (simp add: iadd_columns_def) (simp add: scatter_def)

lemma direct_impact_cntry_Inr:
  assumes "direct_impact_cntry cbn iys gdf sel s cntry = Inr s'"
  shows "\<exists>alpha3 start rest.
      cbn (str cntry) = Some alpha3
    \<and> cntry_pos s (if alpha3 \<in> set (countries_iso3 s) then alpha3 else ''ROW'')
        = Some (start # rest)
    \<and> (\<forall>p \<in> set sel. p + start < length (mriot_data s) \<and> p + start < width s)
    \<and> length (iys (normalize_exposure (filter (\<lambda>r. region_id r = cntry) gdf)))
        = length (years s)
    \<and> s' = s\<lparr>cntry_dir_imp := cntry_dir_imp s
                 @ [if alpha3 \<in> set (countries_iso3 s) then alpha3 else ''ROW''],
             direct_impact := iadd_columns (direct_impact s) (map (\<lambda>p. p + start) sel)
               (map (\<lambda>imp. map (\<lambda>prod. fmul imp prod)
                       (sum_axis1 (map (\<lambda>p. mriot_data s ! p) (map (\<lambda>p. p + start) sel))))
                  (iys (normalize_exposure (filter (\<lambda>r. region_id r = cntry) gdf))))\<rparr>"
  using assms
  by (auto simp: direct_impact_cntry_def Let_def not_le
      split: option.splits list.splits if_splits)


lemma table_fields:
  "mriot_data example_table = [[Fin 10, Fin 5], [Fin 5, Fin 10]]"
  "countries_iso3 example_table = [''CHE'', ''ROW'']"
  "sectors example_table = [''s1'']"
  "cntry_pos example_table ''ROW'' = Some [1]"
  "cntry_pos example_table ''CHE'' = Some [0]"
  "width example_table = 2"
  by (simp_all add: example_table_def read_wiod_def init_def width_def unique_def
      cntry_pos_of_def upt_rec)

lemma str_276: "str 276 = ''276''"
  by (simp add: str.simps)

lemma str_250: "str 250 = ''250''"
  by (simp add: str.simps)

lemma example_norm_276:
  "normalize_exposure (filter (\<lambda>r. region_id r = 276) example_gdf)
     = [\<lparr>region_id = 276, exp_value = Fin (3 / 4)\<rparr>,
        \<lparr>region_id = 276, exp_value = Fin (1 / 4)\<rparr>]"
  by (simp add: normalize_exposure_def example_gdf_def nansum_def nan_to_zero_def fsum_def)

lemma example_norm_250:
  "normalize_exposure (filter (\<lambda>r. region_id r = 250) example_gdf)
     = [\<lparr>region_id = 250, exp_value = Fin 1\<rparr>]"
  by (simp add: normalize_exposure_def example_gdf_def nansum_def nan_to_zero_def fsum_def)

lemma example_imp_276:
  "example_impact (normalize_exposure (filter (\<lambda>r. region_id r = 276) example_gdf))
     = [Fin (1 / 10)]"
  unfolding example_norm_276 by (simp add: example_impact_def fsum_def)

lemma example_imp_250:
  "example_impact (normalize_exposure (filter (\<lambda>r. region_id r = 250) example_gdf))
     = [Fin (1 / 5)]"
  unfolding example_norm_250 by (simp add: example_impact_def fsum_def)

lemma example_step_276:
  "direct_impact_cntry example_numeric example_impact example_gdf [0] example_start 276
     = Inr (example_start\<lparr>cntry_dir_imp := [''ROW''],
              direct_impact := [[Fin 0, Fin (3 / 2)]]\<rparr>)"
  unfolding direct_impact_cntry_def example_imp_276 str_276 Let_def
  by (simp add: example_numeric_def example_start_def table_fields width_def sum_axis1_def
      fsum_def iadd_columns_def scatter_def)

lemma example_step_250:
  "direct_impact_cntry example_numeric example_impact example_gdf [0]
       (example_start\<lparr>cntry_dir_imp := [''ROW''],
              direct_impact := [[Fin 0, Fin (3 / 2)]]\<rparr>) 250
     = Inr (example_start\<lparr>cntry_dir_imp := [''ROW'', ''ROW''],
              direct_impact := [[Fin 0, Fin (9 / 2)]]\<rparr>)"
  unfolding direct_impact_cntry_def example_imp_250 str_250 Let_def
  by (simp add: example_numeric_def example_start_def table_fields width_def sum_axis1_def
      fsum_def iadd_columns_def scatter_def)


lemma example_direct:
  "calc_sector_direct_impact example_numeric example_impact [2020, 2020] example_gdf
       ''agriculture'' None example_table
     = Inr (example_start\<lparr>cntry_dir_imp := [''ROW'', ''ROW''],
              direct_impact := [[Fin 0, Fin (9 / 2)]],
              direct_aai_agg := [Fin 0, Fin (9 / 2)]\<rparr>)"
proof -
  have sel: "select_subsec ''agriculture'' None = Inr [0]"
    by (simp add: select_subsec_def built_in_subsec_pos_def upt_rec)
  have u: "unique (map region_id example_gdf) = [276, 250]"
    by (simp add: unique_def example_gdf_def)
  have s0: "example_table\<lparr>years := sort (remdups [2020, 2020]),
      direct_impact := zeros (length (sort (remdups [2020, 2020 :: int]))) (width example_table),
      cntry_dir_imp := []\<rparr> = example_start"
    by (simp add: example_start_def zeros_def table_fields numeral_2_eq_2)
  have m: "mean_axis0 2 [[Fin 0, Fin (9 / 2)]] = [Fin 0, Fin (9 / 2)]"
    by (simp add: mean_axis0_def fmean_def column_def fsum_def upt_rec)
  have w: "width (example_start\<lparr>cntry_dir_imp := [''ROW'', ''ROW''],
              direct_impact := [[Fin 0, Fin (9 / 2)]]\<rparr>) = 2"
    using table_fields(6) by (simp add: width_def example_start_def)
  show ?thesis
    unfolding calc_sector_direct_impact_def sel u Let_def s0
    by (simp add: example_step_276 example_step_250 w m)
qed

text \<open>
  Claim C7. In the loop of \<^verbatim>\<open>calc_sector_direct_impact\<close>, a country whose alpha-3 code
  is not among the countries of the table is recorded and processed as \<^verbatim>\<open>'ROW'\<close>. Its
  contribution, the impact of the year times the production of the selected row, is
  added to what the direct-impact matrix already holds at the selected rows of
  \<^verbatim>\<open>'ROW'\<close>, and nothing else in that year changes. The table and its row ranges stay as
  they are, so the contributions of two such countries end up added to one another in the
  same entries.
\<close>

theorem unmapped_country_accumulates_into_ROW:
  assumes "direct_impact_cntry cbn iys gdf sel s cntry = Inr s'"
    and "cbn (str cntry) = Some alpha3" and "alpha3 \<notin> set (countries_iso3 s)"
    and "distinct sel" and "k < length sel"
    and "length (direct_impact s) = length (years s)"
    and "\<forall>row \<in> set (direct_impact s). length row = width s"
    and "y < length (years s)"
  shows "cntry_dir_imp s' = cntry_dir_imp s @ [''ROW'']
     \<and> cntry_pos s' = cntry_pos s \<and> mriot_data s' = mriot_data s
     \<and> countries_iso3 s' = countries_iso3 s \<and> years s' = years s
     \<and> (\<exists>start rest. cntry_pos s ''ROW'' = Some (start # rest)
          \<and> direct_impact s' ! y ! (sel ! k + start) =
              fadd (direct_impact s ! y ! (sel ! k + start))
                (fmul (iys (normalize_exposure (filter (\<lambda>r. region_id r = cntry) gdf)) ! y)
                   (fsum (mriot_data s ! (sel ! k + start))))
          \<and> (\<forall>q. q \<notin> set (map (\<lambda>p. p + start) sel) \<longrightarrow>
                direct_impact s' ! y ! q = direct_impact s ! y ! q))"
proof -
  let ?imps = "iys (normalize_exposure (filter (\<lambda>r. region_id r = cntry) gdf))"
  obtain a start rest where a: "cbn (str cntry) = Some a"
    and pos: "cntry_pos s (if a \<in> set (countries_iso3 s) then a else ''ROW'')
        = Some (start # rest)"
    and bnd: "\<forall>p \<in> set sel. p + start < length (mriot_data s) \<and> p + start < width s"
    and len: "length ?imps = length (years s)"
    and s': "s' = s\<lparr>cntry_dir_imp := cntry_dir_imp s
                 @ [if a \<in> set (countries_iso3 s) then a else ''ROW''],
             direct_impact := iadd_columns (direct_impact s) (map (\<lambda>p. p + start) sel)
               (map (\<lambda>imp. map (\<lambda>prod. fmul imp prod)
                       (sum_axis1 (map (\<lambda>p. mriot_data s ! p) (map (\<lambda>p. p + start) sel))))
                  ?imps)\<rparr>"
    using direct_impact_cntry_Inr [OF assms(1)] by blast
  have aa: "a = alpha3" using a assms(2) by simp
  have row: "cntry_pos s ''ROW'' = Some (start # rest)" using pos aa assms(3) by simp
  let ?pos = "map (\<lambda>p. p + start) sel"
  let ?b = "map (\<lambda>imp. map (\<lambda>prod. fmul imp prod)
                       (sum_axis1 (map (\<lambda>p. mriot_data s ! p) ?pos))) ?imps"
  have d: "distinct ?pos" using assms(4) by (simp add: distinct_map inj_on_def)
  have ya: "y < length (direct_impact s)" using assms(6,8) by simp
  have yb: "y < length ?b" using len assms(8) by simp
  have lb: "length (?b ! y) = length ?pos" using len assms(8) by (simp add: sum_axis1_def)
  have k: "k < length ?pos" using assms(5) by simp
  have "sel ! k + start < width s" using bnd assms(5) by simp
  moreover have "length (direct_impact s ! y) = width s" using assms(7) ya by simp
  ultimately have pk: "?pos ! k < length (direct_impact s ! y)" using assms(5) by simp
  have "iadd_columns (direct_impact s) ?pos ?b ! y ! (?pos ! k)
      = fadd (direct_impact s ! y ! (?pos ! k)) (?b ! y ! k)"
    using d ya yb lb k pk by (rule iadd_columns_nth)
  moreover have "?b ! y ! k = fmul (?imps ! y) (fsum (mriot_data s ! (sel ! k + start)))"
    using len assms(5,8) by (simp add: sum_axis1_def)
  ultimately have e: "direct_impact s' ! y ! (sel ! k + start) =
      fadd (direct_impact s ! y ! (sel ! k + start))
        (fmul (?imps ! y) (fsum (mriot_data s ! (sel ! k + start))))"
    using s' assms(5) by simp
  have o: "\<forall>q. q \<notin> set ?pos \<longrightarrow> direct_impact s' ! y ! q = direct_impact s ! y ! q"
    using s' iadd_columns_other [OF ya yb] by simp
  show ?thesis using s' aa assms(3) row e o by simp
qed

theorem unmapped_country_accumulates_into_ROW_witness:
  "direct_impact_cntry example_numeric example_impact example_gdf [0]
       (example_start\<lparr>cntry_dir_imp := [''ROW''],
              direct_impact := [[Fin 0, Fin (3 / 2)]]\<rparr>) 250
     = Inr (example_start\<lparr>cntry_dir_imp := [''ROW'', ''ROW''],
              direct_impact := [[Fin 0, Fin (9 / 2)]]\<rparr>)
   \<and> example_numeric (str 250) = Some ''FRA''
   \<and> ''FRA'' \<notin> set (countries_iso3 example_start)
   \<and> cntry_pos example_start ''ROW'' = Some [1]
   \<and> [[Fin 0, Fin (9 / 2)]] ! 0 ! (0 + 1) = fadd (Fin (3 / 2)) (fmul (Fin (1 / 5)) (Fin 15))"
proof -
  have n: "example_numeric (str 250) = Some ''FRA''"
    by (simp add: str_250 example_numeric_def)
  have c: "''FRA'' \<notin> set (countries_iso3 (example_start\<lparr>cntry_dir_imp := [''ROW''],
              direct_impact := [[Fin 0, Fin (3 / 2)]]\<rparr>))"
    by (simp add: example_start_def table_fields)
  have c': "''FRA'' \<notin> set (countries_iso3 example_start)"
    by (simp add: example_start_def table_fields)
  have p: "cntry_pos example_start ''ROW'' = Some [1]"
    by (simp add: example_start_def table_fields)
  have e: "[[Fin 0, Fin (9 / 2)]] ! 0 ! (0 + 1)
      = fadd (Fin (3 / 2)) (fmul (Fin (1 / 5)) (Fin 15 :: fnum))"
    using unmapped_country_accumulates_into_ROW [OF example_step_250 n c, of 0 0]
    by (simp add: example_start_def table_fields example_imp_250 fsum_def width_def)
  show ?thesis using example_step_250 n c' p e by blast
qed


lemma fdiv_zero_special: "fdiv x (Fin 0) \<in> {NaN, PInf, MInf}"
  by (cases x) (auto simp: inf_of_sign_def)

lemma select_subsec_no_zero_division:
  "select_subsec sector_type selected_subsec \<noteq> Inl ZeroDivisionError"
  by (auto simp: select_subsec_def split: option.splits list.splits)

lemma direct_impact_cntry_no_zero_division:
  "direct_impact_cntry cbn iys gdf sel s cntry \<noteq> Inl ZeroDivisionError"
  by (auto simp: direct_impact_cntry_def Let_def split: option.splits list.splits)

lemma direct_impact_loop_no_zero_division:
  "direct_impact_loop cbn iys gdf sel s cs \<noteq> Inl ZeroDivisionError"
proof (induction cs arbitrary: s)
  case Nil
  then show ?case by simp
next
  case (Cons c cs)
  then show ?case
    using direct_impact_cntry_no_zero_division [of cbn iys gdf sel s c]
    by (auto split: sum.splits)
qed

text \<open>
  Claim C8 says that the normalisation of a country's exposures fails with a
  division-by-zero error when their total value is zero. It does not: with one exposure
  of value zero the call returns, and the direct impact holds a not-a-number entry.
\<close>

theorem zero_total_exposure_counterexample:
  "nansum (map exp_value [\<lparr>region_id = 276, exp_value = Fin 0\<rparr>]) = Fin 0
   \<and> calc_sector_direct_impact example_numeric example_impact [2020]
       [\<lparr>region_id = 276, exp_value = Fin 0\<rparr>] ''agriculture'' None example_table
     = Inr (example_start\<lparr>cntry_dir_imp := [''ROW''],
              direct_impact := [[Fin 0, NaN]],
              direct_aai_agg := [Fin 0, NaN]\<rparr>)"
proof -
  have sel: "select_subsec ''agriculture'' None = Inr [0]"
    by (simp add: select_subsec_def built_in_subsec_pos_def upt_rec)
  have s0: "example_table\<lparr>years := sort (remdups [2020]),
      direct_impact := zeros (length (sort (remdups [2020 :: int]))) (width example_table),
      cntry_dir_imp := []\<rparr> = example_start"
    by (simp add: example_start_def zeros_def table_fields numeral_2_eq_2)
  have t: "nansum (map exp_value [\<lparr>region_id = 276, exp_value = Fin 0\<rparr>]) = Fin 0"
    by (simp add: nansum_def nan_to_zero_def fsum_def)
  have imp: "example_impact (normalize_exposure
        (filter (\<lambda>r. region_id r = 276) [\<lparr>region_id = 276, exp_value = Fin 0\<rparr>])) = [NaN]"
    by (simp add: normalize_exposure_def nansum_def nan_to_zero_def fsum_def
        example_impact_def inf_of_sign_def)
  have step: "direct_impact_cntry example_numeric example_impact
        [\<lparr>region_id = 276, exp_value = Fin 0\<rparr>] [0] example_start 276
      = Inr (example_start\<lparr>cntry_dir_imp := [''ROW''], direct_impact := [[Fin 0, NaN]]\<rparr>)"
    unfolding direct_impact_cntry_def imp str_276 Let_def
    by (simp add: example_numeric_def example_start_def table_fields width_def sum_axis1_def
        fsum_def iadd_columns_def scatter_def)
  have m: "mean_axis0 2 [[Fin 0, NaN]] = [Fin 0, NaN]"
    by (simp add: mean_axis0_def fmean_def column_def fsum_def upt_rec)
  have w: "width (example_start\<lparr>cntry_dir_imp := [''ROW''],
      direct_impact := [[Fin 0, NaN]]\<rparr>) = 2"
    using table_fields(6) by (simp add: width_def example_start_def)
  have "calc_sector_direct_impact example_numeric example_impact [2020]
       [\<lparr>region_id = 276, exp_value = Fin 0\<rparr>] ''agriculture'' None example_table
     = Inr (example_start\<lparr>cntry_dir_imp := [''ROW''],
              direct_impact := [[Fin 0, NaN]],
              direct_aai_agg := [Fin 0, NaN]\<rparr>)"
    unfolding calc_sector_direct_impact_def sel Let_def s0
    by (simp add: unique_def step w m)
  then show ?thesis using t by simp
qed

text \<open>
  Claim C8, amended. When the total exposure value of a country's exposures is zero, the
  normalisation raises nothing: every value \<open>v\<close> becomes \<open>v / 0\<close>, which is not-a-number
  or an infinity, and \<^verbatim>\<open>calc_sector_direct_impact\<close> never fails with a division-by-zero
  error.
\<close>

theorem zero_total_exposure_no_error:
  assumes "nansum (map exp_value cntyr_exp) = Fin 0"
  shows "map exp_value (normalize_exposure cntyr_exp)
           = map (\<lambda>r. fdiv (exp_value r) (Fin 0)) cntyr_exp
     \<and> (\<forall>r \<in> set (normalize_exposure cntyr_exp). exp_value r \<in> {NaN, PInf, MInf})
     \<and> calc_sector_direct_impact cbn iys event_years gdf sector_type selected_subsec s
         \<noteq> Inl ZeroDivisionError"
proof -
  have a: "map exp_value (normalize_exposure cntyr_exp)
           = map (\<lambda>r. fdiv (exp_value r) (Fin 0)) cntyr_exp"
    using assms by (simp add: normalize_exposure_def comp_def)
  have b: "\<forall>r \<in> set (normalize_exposure cntyr_exp). exp_value r \<in> {NaN, PInf, MInf}"
  proof
    fix r assume "r \<in> set (normalize_exposure cntyr_exp)"
    then have "exp_value r \<in> set (map exp_value (normalize_exposure cntyr_exp))" by simp
    then have "exp_value r \<in> (\<lambda>r. fdiv (exp_value r) (Fin 0)) ` set cntyr_exp"
      unfolding a by simp
    then obtain r0 :: exp_row where r0: "exp_value r = fdiv (exp_value r0) (Fin 0)"
      by auto
    show "exp_value r \<in> {NaN, PInf, MInf}"
      unfolding r0 by (rule fdiv_zero_special)
  qed
  have c: "calc_sector_direct_impact cbn iys event_years gdf sector_type selected_subsec s
         \<noteq> Inl ZeroDivisionError"
    using select_subsec_no_zero_division [of sector_type selected_subsec]
      direct_impact_loop_no_zero_division [of cbn iys gdf]
    by (auto simp: calc_sector_direct_impact_def Let_def split: sum.splits)
  show ?thesis using a b c by blast
qed

theorem zero_total_exposure_no_error_witness:
  "nansum (map exp_value [\<lparr>region_id = 276, exp_value = Fin 0\<rparr>]) = Fin 0
   \<and> map exp_value (normalize_exposure [\<lparr>region_id = 276, exp_value = Fin 0\<rparr>]) = [NaN]"
proof -
  have t: "nansum (map exp_value [\<lparr>region_id = 276, exp_value = Fin 0\<rparr>]) = Fin 0"
    by (simp add: nansum_def nan_to_zero_def fsum_def)
  show ?thesis
    using zero_total_exposure_no_error [OF t] t by (simp add: inf_of_sign_def)
qed

text \<open>
  Claim C6. For direct-impact and indirect-impact matrices of the same shape,
  \<^verbatim>\<open>calc_total_impact\<close> sets \<^verbatim>\<open>total_impact\<close> to their element-wise sum, and each of
  the three average-annual aggregates is the arithmetic mean of its matrix over the
  years: the sum of the column divided by the number of years (not-a-number when there
  is no year). \<^verbatim>\<open>total_aai_agg\<close> is set by \<^verbatim>\<open>calc_total_impact\<close>,
  \<^verbatim>\<open>direct_aai_agg\<close> by \<^verbatim>\<open>calc_sector_direct_impact\<close> and \<^verbatim>\<open>indirect_aai_agg\<close> by
  \<^verbatim>\<open>calc_indirect_impact\<close>.
\<close>

theorem average_annual_aggregates:
  "(\<forall>y j. y < length (direct_impact s) \<and> length (indirect_impact s) = length (direct_impact s)
        \<and> j < length (direct_impact s ! y) \<and> j < length (indirect_impact s ! y) \<longrightarrow>
        total_impact (calc_total_impact s) ! y ! j
          = fadd (indirect_impact s ! y ! j) (direct_impact s ! y ! j))
   \<and> (\<forall>j < width s.
        total_aai_agg (calc_total_impact s) ! j =
          fdiv (fsum (map (\<lambda>row. row ! j) (total_impact (calc_total_impact s))))
            (Fin (real (length (total_impact (calc_total_impact s))))))
   \<and> (calc_sector_direct_impact cbn iys event_years gdf sector_type selected_subsec s0
         = Inr sd \<longrightarrow>
       (\<forall>j < width sd.
          direct_aai_agg sd ! j =
            fdiv (fsum (map (\<lambda>row. row ! j) (direct_impact sd)))
              (Fin (real (length (direct_impact sd))))))
   \<and> (calc_indirect_impact linalg_inv io_approach s1 = Inr si \<longrightarrow>
       (\<forall>j < width si.
          indirect_aai_agg si ! j =
            fdiv (fsum (map (\<lambda>row. row ! j) (indirect_impact si)))
              (Fin (real (length (indirect_impact si))))))"
proof -
  have t: "total_impact (calc_total_impact s) = madd (indirect_impact s) (direct_impact s)"
    and a: "total_aai_agg (calc_total_impact s)
      = mean_axis0 (width s) (total_impact (calc_total_impact s))"
    by (simp_all add: calc_total_impact_def Let_def)
  show ?thesis
    unfolding a unfolding t
    by (auto simp: madd_nth mean_axis0_nth calc_sector_direct_impact_aai
        calc_indirect_impact_aai)
qed


theorem average_annual_aggregates_witness:
  "calc_sector_direct_impact example_numeric example_impact [2020, 2020] example_gdf
       ''agriculture'' None example_table
     = Inr (example_start\<lparr>cntry_dir_imp := [''ROW'', ''ROW''],
              direct_impact := [[Fin 0, Fin (9 / 2)]],
              direct_aai_agg := [Fin 0, Fin (9 / 2)]\<rparr>)
   \<and> direct_aai_agg (example_start\<lparr>cntry_dir_imp := [''ROW'', ''ROW''],
              direct_impact := [[Fin 0, Fin (9 / 2)]],
              direct_aai_agg := [Fin 0, Fin (9 / 2)]\<rparr>) ! 1
       = fdiv (fsum [Fin (9 / 2)]) (Fin 1)
   \<and> calc_indirect_impact inv_2x2 ''leontief'' example_chain =
       Inr (example_chain\<lparr>indirect_impact := [[Fin (200 / 3), Fin (100 / 3)]],
          indirect_aai_agg := [Fin (200 / 3), Fin (100 / 3)],
          io_data := Some (example_io ''leontief''
             [[[Fin (200 / 3)], [Fin (100 / 3)]], [[Fin 0], [Fin 0]]])\<rparr>)
   \<and> indirect_aai_agg (example_chain\<lparr>indirect_impact := [[Fin (200 / 3), Fin (100 / 3)]],
          indirect_aai_agg := [Fin (200 / 3), Fin (100 / 3)],
          io_data := Some (example_io ''leontief''
             [[[Fin (200 / 3)], [Fin (100 / 3)]], [[Fin 0], [Fin 0]]])\<rparr>) ! 0
       = fdiv (fsum [Fin (200 / 3)]) (Fin 1)
   \<and> total_impact (calc_total_impact
         (example_chain\<lparr>indirect_impact := [[Fin (200 / 3), Fin (100 / 3)]]\<rparr>)) ! 0 ! 0
       = fadd (Fin (200 / 3)) (Fin 100)
   \<and> total_aai_agg (calc_total_impact
         (example_chain\<lparr>indirect_impact := [[Fin (200 / 3), Fin (100 / 3)]]\<rparr>)) ! 0
       = fdiv (fsum [fadd (Fin (200 / 3)) (Fin 100)]) (Fin 1)"
proof -
  let ?S = "example_chain\<lparr>indirect_impact := [[Fin (200 / 3), Fin (100 / 3)]]\<rparr>"
  let ?SD = "example_start\<lparr>cntry_dir_imp := [''ROW'', ''ROW''],
              direct_impact := [[Fin 0, Fin (9 / 2)]],
              direct_aai_agg := [Fin 0, Fin (9 / 2)]\<rparr>"
  let ?SI = "example_chain\<lparr>indirect_impact := [[Fin (200 / 3), Fin (100 / 3)]],
          indirect_aai_agg := [Fin (200 / 3), Fin (100 / 3)],
          io_data := Some (example_io ''leontief''
             [[[Fin (200 / 3)], [Fin (100 / 3)]], [[Fin 0], [Fin 0]]])\<rparr>"
  note T = average_annual_aggregates [of ?S example_numeric example_impact "[2020, 2020]"
      example_gdf "''agriculture''" None example_table ?SD inv_2x2 "''leontief''"
      example_chain ?SI]
  have ws: "width ?S = 2" "width ?SD = 2" "width ?SI = 2"
    using example_fields(5) table_fields(6) by (simp_all add: width_def example_start_def)
  have f: "direct_impact ?S = [[Fin 100, Fin 0]]" "indirect_impact ?S = [[Fin (200 / 3), Fin (100 / 3)]]"
    by (simp_all add: example_fields)
  have a: "total_impact (calc_total_impact ?S) ! 0 ! 0 = fadd (Fin (200 / 3)) (Fin 100)"
    using T f by simp
  have tot: "total_impact (calc_total_impact ?S)
      = [[fadd (Fin (200 / 3)) (Fin 100), fadd (Fin (100 / 3)) (Fin 0)]]"
    by (simp add: calc_total_impact_def Let_def madd_def f)
  have "0 < width ?S \<longrightarrow> total_aai_agg (calc_total_impact ?S) ! 0 =
          fdiv (fsum (map (\<lambda>row. row ! 0) (total_impact (calc_total_impact ?S))))
            (Fin (real (length (total_impact (calc_total_impact ?S)))))"
    using T by blast
  then have b: "total_aai_agg (calc_total_impact ?S) ! 0
      = fdiv (fsum [fadd (Fin (200 / 3)) (Fin 100)]) (Fin 1)"
    unfolding tot using ws by simp
  have "1 < width ?SD \<longrightarrow> direct_aai_agg ?SD ! 1 =
          fdiv (fsum (map (\<lambda>row. row ! 1) (direct_impact ?SD)))
            (Fin (real (length (direct_impact ?SD))))"
    using T example_direct by blast
  then have c: "direct_aai_agg ?SD ! 1 = fdiv (fsum [Fin (9 / 2)]) (Fin 1)"
    using ws by simp
  have "0 < width ?SI \<longrightarrow> indirect_aai_agg ?SI ! 0 =
          fdiv (fsum (map (\<lambda>row. row ! 0) (indirect_impact ?SI)))
            (Fin (real (length (indirect_impact ?SI))))"
    using T example_leontief by blast
  then have d: "indirect_aai_agg ?SI ! 0 = fdiv (fsum [Fin (200 / 3)]) (Fin 1)"
    using ws by simp
  show ?thesis using example_direct example_leontief a b c d by blast
qed

end
